theory Spec2Isabelle
  imports Main
begin

section \<open>The node executor of the DAG scheduler (internal/scheduler/node.go)\<close>

text \<open>
  A shallow embedding of \<^verbatim>\<open>Node\<close> and its operations \<^verbatim>\<open>Execute\<close>, \<^verbatim>\<open>signal\<close>,
  \<^verbatim>\<open>setup\<close>, \<^verbatim>\<open>setupLog\<close>, \<^verbatim>\<open>setupStdout\<close>, \<^verbatim>\<open>setupScript\<close> and \<^verbatim>\<open>teardown\<close>.
  Every operation works on the node and on the operating system. The node is a record
  that is passed in and returned updated. The operating system is an oracle \<open>os\<close> that
  fixes the outcome of each call the code makes (a flush, a sync, opening a file, running
  the child); the calls an operation performs are returned as a list, in program order.
  A Go \<^verbatim>\<open>error\<close> is its message, \<^verbatim>\<open>nil\<close> is \<open>None\<close>; a pointer field that may be
  \<^verbatim>\<open>nil\<close> is an \<open>option\<close>.
\<close>

subsection \<open>Data\<close>

type_synonym error = string

text \<open>\<^verbatim>\<open>os.ErrInvalid\<close>, returned by the methods of a nil \<^verbatim>\<open>*os.File\<close>.\<close>

definition ErrInvalid :: error where
  "ErrInvalid = ''invalid argument''"

datatype NodeStatus =
    NodeStatus_None
  | NodeStatus_Running
  | NodeStatus_Error
  | NodeStatus_Cancel
  | NodeStatus_Success
  | NodeStatus_Skipped

text \<open>An open \<^verbatim>\<open>*os.File\<close>: its descriptor and the name it was opened with
  (\<^verbatim>\<open>f.Name()\<close>). A \<^verbatim>\<open>*bufio.Writer\<close> is the file it wraps.\<close>

datatype os_file = File (fd: nat) (file_name: string)

datatype writer = NewWriter (writer_file: os_file)

text \<open>\<^verbatim>\<open>time.Time\<close>, broken down as \<^verbatim>\<open>Format\<close> reads it.\<close>

record time =
  year :: nat
  month :: nat
  day :: nat
  hour :: nat
  minute :: nat
  second :: nat
  nanosecond :: nat

text \<open>The fields of \<^verbatim>\<open>config.Step\<close> that node.go reads or writes.\<close>

record step =
  Name :: string
  Dir :: string
  Command :: string
  CmdWithArgs :: string
  Args :: "string list"
  Variables :: "string list"
  Script :: string
  Stdout :: string
  Output :: string

record node_state =
  Status :: NodeStatus
  Log :: string
  StartedAt :: time
  FinishedAt :: time
  RetryCount :: int
  RetriedAt :: time
  DoneCount :: int
  Error :: "error option"

text \<open>What a child's stdout or stderr is connected to: the scheduler's own stdout, a
  buffered writer (a field of the node, possibly nil), the write end of the capture pipe,
  or an \<^verbatim>\<open>io.MultiWriter\<close> over several of these.\<close>

datatype sink =
    OsStdout
  | Buffered "writer option"
  | PipeWriter os_file
  | Multi "sink list"

text \<open>\<^verbatim>\<open>exec.Cmd\<close>: \<open>cmd_Args\<close> holds the program name followed by the arguments, as
  \<^verbatim>\<open>exec.CommandContext\<close> builds it; \<open>Path\<close> is the program name as given (its lookup
  in \<^verbatim>\<open>PATH\<close> is left to the run); \<open>Process\<close> is the pid once the child is started.\<close>

record cmd =
  Path :: string
  cmd_Args :: "string list"
  cmd_Dir :: string
  cmd_Env :: "string list"
  Setpgid :: bool
  Pgid :: int
  cmd_Stdout :: sink
  cmd_Stderr :: sink
  Process :: "int option"

record node =
  Step :: step
  State :: node_state
  node_id :: int
  cmd :: "cmd option"
  cancelFunc :: bool
  logFile :: "os_file option"
  logWriter :: "writer option"
  stdoutFile :: "os_file option"
  stdoutWriter :: "writer option"
  outputWriter :: "os_file option"
  outputReader :: "os_file option"
  scriptFile :: "os_file option"
  done_flag :: bool

subsection \<open>The operating system\<close>

text \<open>What running the child gives when all it writes is taken: the error of
  \<^verbatim>\<open>cmd.Run()\<close> (nil for exit status 0), the pid (none when the child could not be
  started), and the bytes the child wrote to its stdout and stderr. \<open>pipe_capacity\<close> is
  the number of bytes a pipe of \<^verbatim>\<open>os.Pipe\<close> holds while nobody reads it (65536 on
  Linux).\<close>

record run_outcome =
  run_error :: "error option"
  child_pid :: "int option"
  child_stdout :: string
  child_stderr :: string

record os =
  flush_result :: "writer \<Rightarrow> error option"
  sync_result :: "os_file \<Rightarrow> error option"
  open_result :: "string \<Rightarrow> error + os_file"
  createtemp_result :: "string \<Rightarrow> string \<Rightarrow> error + os_file"
  write_result :: "os_file \<Rightarrow> string \<Rightarrow> error option"
  pipe_result :: "error + (os_file \<times> os_file)"
  pipe_capacity :: nat
  run_result :: "cmd \<Rightarrow> run_outcome"
  clock :: time

text \<open>The calls an operation makes, in the order it makes them.\<close>

datatype os_call =
    Flush writer
  | Sync os_file
  | Close os_file
  | Remove string
  | Kill int int
  | OpenOrCreateFile string
  | CreateTemp string string
  | WriteString os_file string
  | Pipe
  | Run cmd
  | Copy os_file
  | Setenv string string

subsection \<open>teardown\<close>

text \<open>The first loop of \<^verbatim>\<open>teardown\<close>: every non-nil writer is flushed, and an error
  replaces \<^verbatim>\<open>lastErr\<close>.\<close>

fun flush_writers :: "os \<Rightarrow> writer option list \<Rightarrow> error option \<Rightarrow> error option \<times> os_call list" where
  "flush_writers w [] lastErr = (lastErr, [])"
| "flush_writers w (None # ws) lastErr = flush_writers w ws lastErr"
| "flush_writers w (Some x # ws) lastErr =
     (let lastErr' = (case flush_result w x of Some err \<Rightarrow> Some err | None \<Rightarrow> lastErr);
          (r, t) = flush_writers w ws lastErr'
      in (r, Flush x # t))"

text \<open>The second loop: every non-nil file is synced, an error replaces \<^verbatim>\<open>lastErr\<close>,
  and the file is closed (the error of \<^verbatim>\<open>Close\<close> is dropped).\<close>

fun sync_files :: "os \<Rightarrow> os_file option list \<Rightarrow> error option \<Rightarrow> error option \<times> os_call list" where
  "sync_files w [] lastErr = (lastErr, [])"
| "sync_files w (None # fs) lastErr = sync_files w fs lastErr"
| "sync_files w (Some f # fs) lastErr =
     (let lastErr' = (case sync_result w f of Some err \<Rightarrow> Some err | None \<Rightarrow> lastErr);
          (r, t) = sync_files w fs lastErr'
      in (r, Sync f # Close f # t))"

definition set_Error :: "error option \<Rightarrow> node \<Rightarrow> node" where
  "set_Error e n = n\<lparr>State := (State n)\<lparr>Error := e\<rparr>\<rparr>"

definition teardown :: "os \<Rightarrow> node \<Rightarrow> error option \<times> node \<times> os_call list" where
  "teardown w n =
     (if done_flag n then (None, n, [])
      else
        let n1 = n\<lparr>done_flag := True\<rparr>;
            (e1, t1) = flush_writers w [logWriter n1, stdoutWriter n1] None;
            (e2, t2) = sync_files w [logFile n1, stdoutFile n1] e1;
            t3 = (case scriptFile n1 of None \<Rightarrow> [] | Some f \<Rightarrow> [Remove (file_name f)]);
            n2 = (case e2 of None \<Rightarrow> n1 | Some err \<Rightarrow> set_Error (Some err) n1)
        in (e2, n2, t1 @ t2 @ t3))"

text \<open>The errors \<^verbatim>\<open>teardown\<close> meets, in the order it meets them: the flush of the log
  writer, the flush of the stdout writer, the sync of the log file, the sync of the stdout
  file.\<close>

definition teardown_errors :: "os \<Rightarrow> node \<Rightarrow> error list" where
  "teardown_errors w n =
     List.map_filter (\<lambda>x. x)
       [Option.bind (logWriter n) (flush_result w),
        Option.bind (stdoutWriter n) (flush_result w),
        Option.bind (logFile n) (sync_result w),
        Option.bind (stdoutFile n) (sync_result w)]"

text \<open>The calls a first \<^verbatim>\<open>teardown\<close> of the node has to make: the flushes, the syncs
  with the closes, and the removal of the script file.\<close>

definition teardown_calls :: "node \<Rightarrow> os_call list" where
  "teardown_calls n =
     (case logWriter n of None \<Rightarrow> [] | Some x \<Rightarrow> [Flush x]) @
     (case stdoutWriter n of None \<Rightarrow> [] | Some x \<Rightarrow> [Flush x]) @
     (case logFile n of None \<Rightarrow> [] | Some f \<Rightarrow> [Sync f, Close f]) @
     (case stdoutFile n of None \<Rightarrow> [] | Some f \<Rightarrow> [Sync f, Close f]) @
     (case scriptFile n of None \<Rightarrow> [] | Some f \<Rightarrow> [Remove (file_name f)])"

text \<open>Further calls of \<^verbatim>\<open>teardown\<close> on the same node, each under its own outcomes of
  the operating system: what each call returned and called, and the node at the end.\<close>

fun teardown_again :: "os list \<Rightarrow> node \<Rightarrow> (error option \<times> os_call list) list \<times> node" where
  "teardown_again [] n = ([], n)"
| "teardown_again (w # ws) n =
     (case teardown w n of
        (r, n', t) \<Rightarrow> (case teardown_again ws n' of (rs, n'') \<Rightarrow> ((r, t) # rs, n'')))"

subsection \<open>signal\<close>

text \<open>\<^verbatim>\<open>signal\<close> holds the node's lock for the whole call; the model is sequential, so
  the lock does not appear. \<^verbatim>\<open>n.cmd.Process.Pid\<close> dereferences \<^verbatim>\<open>Process\<close>, which is
  nil until the child is started: that is a panic. The error of \<^verbatim>\<open>syscall.Kill\<close> is
  only logged. The signal is its number.\<close>

datatype panic = NilDereference

definition signal :: "int \<Rightarrow> node \<Rightarrow> panic + node \<times> os_call list" where
  "signal sig n =
     (let status = Status (State n);
          sent = (if status = NodeStatus_Running \<and> cmd n \<noteq> None then
                    (case cmd n of
                       None \<Rightarrow> Inr []
                     | Some c \<Rightarrow>
                         (case Process c of
                            None \<Rightarrow> Inl NilDereference
                          | Some pid \<Rightarrow> Inr [Kill (- pid) sig]))
                  else Inr [])
      in case sent of
           Inl p \<Rightarrow> Inl p
         | Inr t \<Rightarrow>
             Inr (if status = NodeStatus_Running
                  then n\<lparr>State := (State n)\<lparr>Status := NodeStatus_Cancel\<rparr>\<rparr>
                  else n, t))"

subsection \<open>Library functions used by setup\<close>

text \<open>\<^verbatim>\<open>filepath.IsAbs\<close> and \<^verbatim>\<open>filepath.Join\<close> of the Go library, on Unix. \<^verbatim>\<open>Join\<close>
  joins the elements from the first non-empty one on with \<^verbatim>\<open>/\<close> and cleans the result.
  \<^verbatim>\<open>Clean\<close> is modelled on the path's elements: empty elements and \<^verbatim>\<open>.\<close> are dropped,
  \<^verbatim>\<open>..\<close> removes the element before it, is dropped at the root, and is kept at the front
  of a relative path; the empty result is \<^verbatim>\<open>.\<close>.\<close>

definition filepath_IsAbs :: "string \<Rightarrow> bool" where
  "filepath_IsAbs p = (case p of [] \<Rightarrow> False | c # _ \<Rightarrow> c = CHR ''/'')"

fun split_on :: "char \<Rightarrow> string \<Rightarrow> string list" where
  "split_on sep [] = [[]]"
| "split_on sep (c # cs) =
     (if c = sep then [] # split_on sep cs
      else (case split_on sep cs of [] \<Rightarrow> [[c]] | x # xs \<Rightarrow> (c # x) # xs))"

fun join_path :: "string list \<Rightarrow> string" where
  "join_path [] = []"
| "join_path [x] = x"
| "join_path (x # y # ys) = x @ ''/'' @ join_path (y # ys)"

text \<open>One element of the path against the elements kept so far (last kept first).\<close>

definition clean_step :: "bool \<Rightarrow> string list \<Rightarrow> string \<Rightarrow> string list" where
  "clean_step rooted kept e =
     (if e = [] \<or> e = ''.'' then kept
      else if e = ''..'' then
        (case kept of
           [] \<Rightarrow> (if rooted then [] else [''..''])
         | k # ks \<Rightarrow> (if k = ''..'' then ''..'' # k # ks else ks))
      else e # kept)"

definition filepath_Clean :: "string \<Rightarrow> string" where
  "filepath_Clean p =
     (if p = [] then ''.''
      else
        let rooted = filepath_IsAbs p;
            kept = foldl (clean_step rooted) [] (split_on (CHR ''/'') p);
            out = (if rooted then ''/'' else []) @ join_path (rev kept)
        in if out = [] then ''.'' else out)"

fun filepath_Join :: "string list \<Rightarrow> string" where
  "filepath_Join [] = []"
| "filepath_Join (e # es) =
     (if e \<noteq> [] then filepath_Clean (join_path (e # es)) else filepath_Join es)"

text \<open>\<^verbatim>\<open>Time.Format("20060102.15:04:05.000")\<close>: the year on four digits, month, day, hour
  (of 24), minute and second on two, each padded with zeros, and the first three of the
  nine digits of the nanoseconds.\<close>

definition digit_char :: "nat \<Rightarrow> char" where
  "digit_char d = ''0123456789'' ! (d mod 10)"

fun digits :: "nat \<Rightarrow> string" where
  "digits n = (if n < 10 then [digit_char n] else digits (n div 10) @ [digit_char (n mod 10)])"

declare digits.simps [simp del]

definition appendInt :: "nat \<Rightarrow> nat \<Rightarrow> string" where
  "appendInt x width = replicate (width - length (digits x)) (CHR ''0'') @ digits x"

definition Format :: "time \<Rightarrow> string" where
  "Format t =
     appendInt (year t) 4 @ appendInt (month t) 2 @ appendInt (day t) 2 @ ''.'' @
     appendInt (hour t) 2 @ '':'' @ appendInt (minute t) 2 @ '':'' @ appendInt (second t) 2 @
     ''.'' @ take 3 (appendInt (nanosecond t) 9)"

text \<open>Modelled from the spec: \<^verbatim>\<open>utils.ValidFilename\<close> of package \<^verbatim>\<open>internal/utils\<close>,
  which node.go calls and whose source is missing. "Step-name sanitization replaces any
  non-filename-safe character with \<^verbatim>\<open>_\<close>." Which characters are filename-safe is the
  parameter \<open>safe\<close>.\<close>

definition ValidFilename :: "(char \<Rightarrow> bool) \<Rightarrow> string \<Rightarrow> string \<Rightarrow> string" where
  "ValidFilename safe str replacement =
     concat (map (\<lambda>c. if safe c then [c] else replacement) str)"

text \<open>Modelled from the spec: \<^verbatim>\<open>utils.TruncString\<close> of package \<^verbatim>\<open>internal/utils\<close>,
  which node.go calls and whose source is missing. The log path carries \<^verbatim>\<open>req_id[:8]\<close>,
  the first 8 characters of the request id.\<close>

definition TruncString :: "string \<Rightarrow> nat \<Rightarrow> string" where
  "TruncString val mx = take mx val"

subsection \<open>setup\<close>

text \<open>\<^verbatim>\<open>utils.OpenOrCreateFile\<close> is a call to the operating system: \<open>open_result\<close> gives
  the file or the error. With an error the helper is taken to return a nil file.\<close>

definition setupLog :: "os \<Rightarrow> node \<Rightarrow> error option \<times> node \<times> os_call list" where
  "setupLog w n =
     (if Log (State n) = [] then (None, n, [])
      else
        (case open_result w (Log (State n)) of
           Inl err \<Rightarrow>
             (Some err, set_Error (Some err) (n\<lparr>logFile := None\<rparr>),
              [OpenOrCreateFile (Log (State n))])
         | Inr f \<Rightarrow>
             (None, n\<lparr>logFile := Some f, logWriter := Some (NewWriter f)\<rparr>,
              [OpenOrCreateFile (Log (State n))])))"

definition stdout_path :: "node \<Rightarrow> string" where
  "stdout_path n =
     (let f = Stdout (Step n)
      in if \<not> filepath_IsAbs f then filepath_Join [Dir (Step n), f] else f)"

definition setupStdout :: "os \<Rightarrow> node \<Rightarrow> error option \<times> node \<times> os_call list" where
  "setupStdout w n =
     (if Stdout (Step n) \<noteq> [] then
        (let f = stdout_path n
         in case open_result w f of
              Inl err \<Rightarrow>
                (Some err, set_Error (Some err) (n\<lparr>stdoutFile := None\<rparr>), [OpenOrCreateFile f])
            | Inr file \<Rightarrow>
                (None, n\<lparr>stdoutFile := Some file, stdoutWriter := Some (NewWriter file)\<rparr>,
                 [OpenOrCreateFile f]))
      else (None, n, []))"

text \<open>\<^verbatim>\<open>setupScript\<close> drops the error of \<^verbatim>\<open>os.CreateTemp\<close>; when the file could not be
  created \<^verbatim>\<open>n.scriptFile\<close> is nil and \<^verbatim>\<open>WriteString\<close> on it returns
  \<^verbatim>\<open>os.ErrInvalid\<close>. The deferred \<^verbatim>\<open>Close\<close> is registered after the write has
  succeeded.\<close>

definition setupScript :: "os \<Rightarrow> node \<Rightarrow> error option \<times> node \<times> os_call list" where
  "setupScript w n =
     (if Script (Step n) \<noteq> [] then
        (let sf = (case createtemp_result w (Dir (Step n)) ''dagu_script-'' of
                     Inl _ \<Rightarrow> None
                   | Inr f \<Rightarrow> Some f);
             n1 = n\<lparr>scriptFile := sf\<rparr>;
             t = [CreateTemp (Dir (Step n)) ''dagu_script-'']
         in case sf of
              None \<Rightarrow> (Some ErrInvalid, n1, t)
            | Some f \<Rightarrow>
                (case write_result w f (Script (Step n)) of
                   Some err \<Rightarrow> (Some err, n1, t @ [WriteString f (Script (Step n))])
                 | None \<Rightarrow>
                     (sync_result w f, n1,
                      t @ [WriteString f (Script (Step n)), Sync f, Close f])))
      else (None, n, []))"

text \<open>The loop of \<^verbatim>\<open>setup\<close> over its sub-steps: the first error is stored in
  \<^verbatim>\<open>n.Error\<close> and returned.\<close>

fun run_setups ::
  "os \<Rightarrow> (os \<Rightarrow> node \<Rightarrow> error option \<times> node \<times> os_call list) list \<Rightarrow> node \<Rightarrow>
   error option \<times> node \<times> os_call list" where
  "run_setups w [] n = (None, n, [])"
| "run_setups w (fn # fns) n =
     (case fn w n of
        (Some err, n', t) \<Rightarrow> (Some err, set_Error (Some err) n', t)
      | (None, n', t) \<Rightarrow>
          (case run_setups w fns n' of (r, n'', t') \<Rightarrow> (r, n'', t @ t')))"

definition log_name :: "(char \<Rightarrow> bool) \<Rightarrow> string \<Rightarrow> time \<Rightarrow> string \<Rightarrow> string" where
  "log_name safe name t requestId =
     ValidFilename safe name ''_'' @ ''.'' @ Format t @ ''.'' @ TruncString requestId 8 @ ''.log''"

text \<open>\<^verbatim>\<open>Node.setup\<close>.\<close>

definition node_setup ::
  "(char \<Rightarrow> bool) \<Rightarrow> os \<Rightarrow> string \<Rightarrow> string \<Rightarrow> node \<Rightarrow> error option \<times> node \<times> os_call list" where
  "node_setup safe w logDir requestId n =
     (let n1 = n\<lparr>State := (State n)\<lparr>StartedAt := clock w\<rparr>\<rparr>;
          n2 = n1\<lparr>State := (State n1)
                 \<lparr>Log := filepath_Join
                           [logDir,
                            log_name safe (Name (Step n1)) (StartedAt (State n1)) requestId]\<rparr>\<rparr>
      in run_setups w [setupLog, setupStdout, setupScript] n2)"

subsection \<open>Library functions used by Execute\<close>

text \<open>\<^verbatim>\<open>os.Expand\<close> of the Go library with its helper \<^verbatim>\<open>getShellName\<close>: after a
  \<^verbatim>\<open>$\<close> that is not the last character comes a name in braces, a single special
  character, or a run of letters, digits and underscores. A name is replaced by
  \<open>mapping name\<close>; \<^verbatim>\<open>${}\<close> and an unclosed \<^verbatim>\<open>${\<close> are eaten; a \<^verbatim>\<open>$\<close> followed by
  no name stays. Every other character, a backquote included, is copied.\<close>

definition isShellSpecialVar :: "char \<Rightarrow> bool" where
  "isShellSpecialVar c = (c \<in> set ''*#$@!?-0123456789'')"

definition isAlphaNum :: "char \<Rightarrow> bool" where
  "isAlphaNum c =
     (c \<in> set ''_0123456789abcdefghijklmnopqrstuvwxyzABCDEFGHIJKLMNOPQRSTUVWXYZ'')"

text \<open>The argument is the text after the \<^verbatim>\<open>$\<close>, never empty where \<^verbatim>\<open>Expand\<close> calls it;
  the result is the name and the number of characters consumed.\<close>

definition getShellName :: "string \<Rightarrow> string \<times> nat" where
  "getShellName s =
     (case s of
        [] \<Rightarrow> ([], 0)
      | c # rest \<Rightarrow>
          if c = CHR ''{'' then
            (if length s > 2 \<and> isShellSpecialVar (s ! 1) \<and> s ! 2 = CHR ''}'' then ([s ! 1], 3)
             else
               let name = takeWhile (\<lambda>x. x \<noteq> CHR ''}'') rest
               in if length name = length rest then ([], 1)
                  else if name = [] then ([], 2)
                  else (name, length name + 2))
          else if isShellSpecialVar c then ([c], 1)
          else (let name = takeWhile isAlphaNum s in (name, length name)))"

function Expand :: "(string \<Rightarrow> string) \<Rightarrow> string \<Rightarrow> string" where
  "Expand mapping [] = []"
| "Expand mapping (c # cs) =
     (if c = CHR ''$'' \<and> cs \<noteq> [] then
        (let name = fst (getShellName cs); w = snd (getShellName cs)
         in (if name = [] \<and> w > 0 then []
             else if name = [] then [c]
             else mapping name) @ Expand mapping (drop w cs))
      else c # Expand mapping cs)"
  by pat_completeness auto
termination
  by (relation "measure (\<lambda>(m, s). length s)") auto

type_synonym environ = "string \<rightharpoonup> string"

definition Getenv :: "environ \<Rightarrow> string \<Rightarrow> string" where
  "Getenv env key = (case env key of None \<Rightarrow> [] | Some v \<Rightarrow> v)"

definition ExpandEnv :: "environ \<Rightarrow> string \<Rightarrow> string" where
  "ExpandEnv env s = Expand (Getenv env) s"

text \<open>\<^verbatim>\<open>os.Setenv\<close> on Unix refuses an empty key, a key with \<^verbatim>\<open>=\<close> or a NUL byte and a
  value with a NUL byte, and leaves the environment as it is; \<^verbatim>\<open>Execute\<close> drops the
  error.\<close>

definition setenv_ok :: "string \<Rightarrow> string \<Rightarrow> bool" where
  "setenv_ok key val =
     (key \<noteq> [] \<and> CHR ''='' \<notin> set key \<and> CHR 0x00 \<notin> set key \<and> CHR 0x00 \<notin> set val)"

definition os_Setenv :: "environ \<Rightarrow> string \<Rightarrow> string \<Rightarrow> environ" where
  "os_Setenv env key val = (if setenv_ok key val then env(key \<mapsto> val) else env)"

text \<open>\<^verbatim>\<open>strings.TrimSpace\<close>: the white space of Unicode, in UTF-8, is removed from both
  ends: the six ASCII characters, U+0085 and U+00A0 on two bytes, and U+1680,
  U+2000 to U+200A, U+2028, U+2029, U+202F, U+205F and U+3000 on three.\<close>

definition is_space1 :: "char \<Rightarrow> bool" where
  "is_space1 a = (a \<in> set [CHR 0x09, CHR 0x0A, CHR 0x0B, CHR 0x0C, CHR 0x0D, CHR 0x20])"

definition is_space2 :: "char \<Rightarrow> char \<Rightarrow> bool" where
  "is_space2 a b = (a = CHR 0xC2 \<and> (b = CHR 0x85 \<or> b = CHR 0xA0))"

definition is_space3 :: "char \<Rightarrow> char \<Rightarrow> char \<Rightarrow> bool" where
  "is_space3 a b c =
     ((a = CHR 0xE1 \<and> b = CHR 0x9A \<and> c = CHR 0x80) \<or>
      (a = CHR 0xE2 \<and> b = CHR 0x80 \<and>
         c \<in> set [CHR 0x80, CHR 0x81, CHR 0x82, CHR 0x83, CHR 0x84, CHR 0x85, CHR 0x86,
                  CHR 0x87, CHR 0x88, CHR 0x89, CHR 0x8A, CHR 0xA8, CHR 0xA9, CHR 0xAF]) \<or>
      (a = CHR 0xE2 \<and> b = CHR 0x81 \<and> c = CHR 0x9F) \<or>
      (a = CHR 0xE3 \<and> b = CHR 0x80 \<and> c = CHR 0x80))"

text \<open>White space is removed from the front of the string; with \<open>bw\<close> the string is read
  backwards, so that the bytes of a character come in reverse.\<close>

fun trim_front :: "bool \<Rightarrow> string \<Rightarrow> string" where
  "trim_front bw [] = []"
| "trim_front bw (a # s) =
     (if is_space1 a then trim_front bw s
      else
        (case s of
           [] \<Rightarrow> [a]
         | b # s' \<Rightarrow>
             if (if bw then is_space2 b a else is_space2 a b) then trim_front bw s'
             else
               (case s' of
                  [] \<Rightarrow> a # s
                | c # s'' \<Rightarrow>
                    if (if bw then is_space3 c b a else is_space3 a b c) then trim_front bw s''
                    else a # s)))"

definition TrimSpace :: "string \<Rightarrow> string" where
  "TrimSpace s = rev (trim_front True (rev (trim_front False s)))"

text \<open>\<^verbatim>\<open>io.MultiWriter\<close> writes to each of its writers in turn; a multi-writer among them
  is replaced by its own writers.\<close>

definition targets :: "sink \<Rightarrow> sink list" where
  "targets s = (case s of Multi xs \<Rightarrow> xs | _ \<Rightarrow> [s])"

definition MultiWriter :: "sink list \<Rightarrow> sink" where
  "MultiWriter ws = Multi (concat (map targets ws))"

subsection \<open>Execute\<close>

text \<open>The first step of \<^verbatim>\<open>Execute\<close>: a non-empty \<^verbatim>\<open>CmdWithArgs\<close> is passed through
  \<^verbatim>\<open>os.ExpandEnv\<close> and then through \<^verbatim>\<open>utils.SplitCommand\<close>, and the result replaces
  \<^verbatim>\<open>Command\<close> and \<^verbatim>\<open>Args\<close>. The source of \<^verbatim>\<open>utils.SplitCommand\<close> is missing: the
  function is the parameter \<open>split\<close>.\<close>

definition resolve_command ::
  "(string \<Rightarrow> string \<times> string list) \<Rightarrow> environ \<Rightarrow> node \<Rightarrow> node" where
  "resolve_command split env n =
     (if CmdWithArgs (Step n) \<noteq> [] then
        (case split (ExpandEnv env (CmdWithArgs (Step n))) of
           (c, as) \<Rightarrow> n\<lparr>Step := (Step n)\<lparr>Command := c, Args := as\<rparr>\<rparr>)
      else n)"

definition child_args :: "node \<Rightarrow> string list" where
  "child_args n =
     (case scriptFile n of
        None \<Rightarrow> Args (Step n)
      | Some f \<Rightarrow> ([] @ Args (Step n)) @ [file_name f])"

text \<open>The command as \<^verbatim>\<open>Execute\<close> has set it up before the capture pipe is made.\<close>

definition build_cmd :: "node \<Rightarrow> cmd" where
  "build_cmd n =
     (let out0 = (if logWriter n \<noteq> None then Buffered (logWriter n) else OsStdout);
          err0 = (if logWriter n \<noteq> None then Buffered (logWriter n) else OsStdout);
          out1 = (if stdoutWriter n \<noteq> None
                  then MultiWriter [Buffered (logWriter n), Buffered (stdoutWriter n)]
                  else out0)
      in \<lparr>Path = Command (Step n),
          cmd_Args = Command (Step n) # child_args n,
          cmd_Dir = Dir (Step n),
          cmd_Env = [] @ Variables (Step n),
          Setpgid = True,
          Pgid = 0,
          cmd_Stdout = out1,
          cmd_Stderr = err0,
          Process = None\<rparr>)"

text \<open>\<^verbatim>\<open>cmd.Run()\<close> returns once the child has exited and all it wrote has been copied
  to the writers of its stdout and stderr. \<^verbatim>\<open>Execute\<close> reads the capture pipe only after
  \<^verbatim>\<open>cmd.Run()\<close> has returned, so the copy into the pipe blocks as soon as the pipe is
  full: for a child that writes more to its stdout than the pipe holds, \<^verbatim>\<open>cmd.Run()\<close>
  does not return.\<close>

definition is_pipe :: "sink \<Rightarrow> bool" where
  "is_pipe s = (case s of PipeWriter _ \<Rightarrow> True | _ \<Rightarrow> False)"

definition pipe_full :: "os \<Rightarrow> cmd \<Rightarrow> run_outcome \<Rightarrow> bool" where
  "pipe_full w c res =
     (list_ex is_pipe (targets (cmd_Stdout c)) \<and> pipe_capacity w < length (child_stdout res))"

text \<open>What \<^verbatim>\<open>io.Copy\<close> reads from the pipe once \<^verbatim>\<open>cmd.Run()\<close> has returned and the
  write end is closed: the bytes the child wrote to its stdout, when the write end is
  among the writers of the child's stdout. Writes into the other writers during the run
  are taken to succeed; a failing writer shows at the flush in \<^verbatim>\<open>teardown\<close>.\<close>

definition pipe_contents :: "cmd \<Rightarrow> os_file option \<Rightarrow> run_outcome \<Rightarrow> string" where
  "pipe_contents c wr res =
     (case wr of
        None \<Rightarrow> []
      | Some x \<Rightarrow>
          if PipeWriter x \<in> set (targets (cmd_Stdout c)) then child_stdout res else [])"

text \<open>The calls on a file that may be nil: a method of a nil \<^verbatim>\<open>*os.File\<close> returns
  \<^verbatim>\<open>os.ErrInvalid\<close> and calls nothing.\<close>

definition on_file :: "(os_file \<Rightarrow> os_call) \<Rightarrow> os_file option \<Rightarrow> os_call list" where
  "on_file call f = (case f of None \<Rightarrow> [] | Some x \<Rightarrow> [call x])"

text \<open>\<^verbatim>\<open>Execute\<close> either returns its error or stays blocked in \<^verbatim>\<open>cmd.Run()\<close>.\<close>

datatype exec_result = Returned "error option" | Blocked

text \<open>\<^verbatim>\<open>Execute\<close> gives its result, the node, the process environment and the calls
  made, each as it is when \<^verbatim>\<open>Execute\<close> returns or where it blocks. \<^verbatim>\<open>os.Pipe\<close>
  returns nil files with an error.\<close>

definition Execute ::
  "(string \<Rightarrow> string \<times> string list) \<Rightarrow> os \<Rightarrow> environ \<Rightarrow> node \<Rightarrow>
   exec_result \<times> node \<times> environ \<times> os_call list" where
  "Execute split w env n =
     (let n1 = resolve_command split env (n\<lparr>cancelFunc := True\<rparr>);
          c1 = build_cmd n1;
          n2 = n1\<lparr>cmd := Some c1\<rparr>;
          piped = (if Output (Step n2) \<noteq> [] then
                     (case pipe_result w of
                        Inl err \<Rightarrow> Inl (err, n2\<lparr>outputReader := None, outputWriter := None\<rparr>)
                      | Inr (rd, wr) \<Rightarrow>
                          Inr (n2\<lparr>outputReader := Some rd, outputWriter := Some wr\<rparr>,
                               c1\<lparr>cmd_Stdout := MultiWriter [cmd_Stdout c1, PipeWriter wr]\<rparr>,
                               [Pipe]))
                   else Inr (n2, c1, []))
      in case piped of
           Inl (err, n3) \<Rightarrow> (Returned (Some err), n3, env, [Pipe])
         | Inr (n3, c2, t1) \<Rightarrow>
             let res = run_result w c2;
                 started = n3\<lparr>cmd := Some (c2\<lparr>Process := child_pid res\<rparr>)\<rparr>
             in if pipe_full w c2 res then (Blocked, started, env, t1 @ [Run c2])
                else
                  let n4 = set_Error (run_error res) started
                  in if outputReader n4 \<noteq> None \<and> Output (Step n4) \<noteq> [] then
                       (let ret = pipe_contents c2 (outputWriter n4) res
                        in (Returned (Error (State n4)), n4,
                            os_Setenv env (Output (Step n4)) (TrimSpace ret),
                            t1 @ [Run c2] @ on_file Close (outputWriter n4) @
                            on_file Copy (outputReader n4) @
                            [Setenv (Output (Step n4)) (TrimSpace ret)]))
                     else (Returned (Error (State n4)), n4, env, t1 @ [Run c2]))"

subsection \<open>The shape of the timestamp and of the calls\<close>

definition is_digit :: "char \<Rightarrow> bool" where
  "is_digit c = (c \<in> set ''0123456789'')"

text \<open>A string against a layout: \<^verbatim>\<open>d\<close> in the layout stands for one decimal digit,
  every other character for itself.\<close>

fun matches_layout :: "string \<Rightarrow> string \<Rightarrow> bool" where
  "matches_layout [] [] = True"
| "matches_layout (l # ls) (c # cs) =
     ((if l = CHR ''d'' then is_digit c else c = l) \<and> matches_layout ls cs)"
| "matches_layout _ _ = False"

definition timestamp_shape :: "string \<Rightarrow> bool" where
  "timestamp_shape s = matches_layout ''dddddddd.dd:dd:dd.ddd'' s"

text \<open>The ranges of the fields of a \<^verbatim>\<open>time.Time\<close> in the years 0 to 9999.\<close>

definition valid_time :: "time \<Rightarrow> bool" where
  "valid_time t =
     (year t < 10000 \<and> 1 \<le> month t \<and> month t \<le> 12 \<and> 1 \<le> day t \<and> day t \<le> 31 \<and>
      hour t < 24 \<and> minute t < 60 \<and> second t < 60 \<and> nanosecond t < 1000000000)"

text \<open>\<^verbatim>\<open>updateStatus\<close>, without its lock.\<close>

definition updateStatus :: "NodeStatus \<Rightarrow> node \<Rightarrow> node" where
  "updateStatus status n = n\<lparr>State := (State n)\<lparr>Status := status\<rparr>\<rparr>"

text \<open>What the sub-steps of \<^verbatim>\<open>setup\<close> leave alone: the step, the log path and the start
  time.\<close>

definition same_log :: "node \<Rightarrow> node \<Rightarrow> bool" where
  "same_log n n' =
     (Log (State n') = Log (State n) \<and> StartedAt (State n') = StartedAt (State n) \<and>
      Step n' = Step n)"

subsection \<open>Sample values\<close>

definition time_ex :: time where
  "time_ex = \<lparr>year = 2022, month = 5, day = 9, hour = 7, minute = 3, second = 41,
              nanosecond = 25000000\<rparr>"

definition os_ok :: os where
  "os_ok =
     \<lparr>flush_result = (\<lambda>x. None),
      sync_result = (\<lambda>f. None),
      open_result = (\<lambda>p. Inr (File 3 p)),
      createtemp_result = (\<lambda>d p. Inr (File 5 (d @ ''/'' @ p @ ''1234''))),
      write_result = (\<lambda>f s. None),
      pipe_result = Inr (File 6 ''|0'', File 7 ''|1''),
      pipe_capacity = 65536,
      run_result = (\<lambda>c. \<lparr>run_error = None, child_pid = Some 4242,
                           child_stdout = ''  hi'' @ [CHR 0x0A], child_stderr = []\<rparr>),
      clock = time_ex\<rparr>"

definition step_ex :: step where
  "step_ex =
     \<lparr>Name = ''step 1'', Dir = ''/work'', Command = ''echo'', CmdWithArgs = [],
      Args = [''hi''], Variables = [], Script = [], Stdout = [], Output = []\<rparr>"

definition node_ex :: node where
  "node_ex =
     \<lparr>Step = step_ex,
      State = \<lparr>Status = NodeStatus_None, Log = [], StartedAt = time_ex, FinishedAt = time_ex,
                RetryCount = 0, RetriedAt = time_ex, DoneCount = 0, Error = None\<rparr>,
      node_id = 1, cmd = None, cancelFunc = False,
      logFile = None, logWriter = None, stdoutFile = None, stdoutWriter = None,
      outputWriter = None, outputReader = None, scriptFile = None, done_flag = False\<rparr>"

definition log_ex :: os_file where
  "log_ex = File 3 ''/logs/step_1.20220509.07:03:41.025.0a1b2c3d.log''"

definition out_ex :: os_file where
  "out_ex = File 4 ''/work/out.txt''"

definition script_ex :: os_file where
  "script_ex = File 5 ''/work/dagu_script-1234''"

text \<open>A node whose child has exited with status 1, with its log, its redirect file and
  its script file, before \<^verbatim>\<open>teardown\<close>.\<close>

definition node_exited :: node where
  "node_exited =
     (set_Error (Some ''exit status 1'') node_ex)
       \<lparr>logFile := Some log_ex, logWriter := Some (NewWriter log_ex),
        stdoutFile := Some out_ex, stdoutWriter := Some (NewWriter out_ex),
        scriptFile := Some script_ex\<rparr>"

text \<open>The flush of the log writer and the sync of the redirect file fail.\<close>

definition os_flaky :: os where
  "os_flaky =
     os_ok\<lparr>flush_result :=
             (\<lambda>x. if x = NewWriter log_ex then Some ''write: no space left on device''
                   else None),
           sync_result := (\<lambda>f. if f = out_ex then Some ''sync: input/output error'' else None)\<rparr>"

definition safe_ex :: "char \<Rightarrow> bool" where
  "safe_ex c =
     (c \<in> set ''abcdefghijklmnopqrstuvwxyzABCDEFGHIJKLMNOPQRSTUVWXYZ0123456789-_.'')"

definition cmd_ex :: cmd where
  "cmd_ex =
     \<lparr>Path = ''echo'', cmd_Args = [''echo'', ''hi''], cmd_Dir = ''/work'', cmd_Env = [],
      Setpgid = True, Pgid = 0, cmd_Stdout = OsStdout, cmd_Stderr = OsStdout,
      Process = Some 4242\<rparr>"

text \<open>A node marked running whose \<^verbatim>\<open>Execute\<close> has not begun, and one whose child
  runs.\<close>

definition node_waiting :: node where
  "node_waiting = updateStatus NodeStatus_Running node_ex"

definition node_running :: node where
  "node_running = (updateStatus NodeStatus_Running node_ex)\<lparr>cmd := Some cmd_ex\<rparr>"

text \<open>A step with a script in a directory that does not exist, so that the script file
  cannot be created.\<close>

definition node_script :: node where
  "node_script = node_ex\<lparr>Step := step_ex\<lparr>Dir := ''/nowhere'', Script := ''echo hi''\<rparr>\<rparr>"

definition os_no_temp :: os where
  "os_no_temp =
     os_ok\<lparr>createtemp_result :=
             (\<lambda>d p. Inl ''open /nowhere/dagu_script-1234: no such file or directory'')\<rparr>"

text \<open>A step with a redirect of its stdout to a relative path.\<close>

definition node_redirect :: node where
  "node_redirect = node_ex\<lparr>Step := step_ex\<lparr>Stdout := ''out.txt''\<rparr>\<rparr>"

text \<open>A step whose stdout is captured into \<^verbatim>\<open>GREETING\<close>, with its log open, and the
  command \<^verbatim>\<open>Execute\<close> runs for it.\<close>

definition node_capture :: node where
  "node_capture =
     node_ex\<lparr>Step := step_ex\<lparr>Output := ''GREETING''\<rparr>,
             logFile := Some log_ex, logWriter := Some (NewWriter log_ex)\<rparr>"

definition cmd_capture :: cmd where
  "cmd_capture =
     \<lparr>Path = ''echo'', cmd_Args = [''echo'', ''hi''], cmd_Dir = ''/work'', cmd_Env = [],
      Setpgid = True, Pgid = 0,
      cmd_Stdout = Multi [Buffered (Some (NewWriter log_ex)), PipeWriter (File 7 ''|1'')],
      cmd_Stderr = Buffered (Some (NewWriter log_ex)),
      Process = None\<rparr>"

text \<open>The child writes to its stdout and exits with status 1.\<close>

definition os_exit1 :: os where
  "os_exit1 =
     os_ok\<lparr>run_result :=
             (\<lambda>c. \<lparr>run_error = Some ''exit status 1'', child_pid = Some 4242,
                    child_stdout = ''half done '', child_stderr = ''boom''\<rparr>)\<rparr>"

text \<open>The child writes a NUL byte between two letters, and exits with status 0 or 1.\<close>

definition os_nul :: os where
  "os_nul =
     os_ok\<lparr>run_result :=
             (\<lambda>c. \<lparr>run_error = None, child_pid = Some 4242,
                    child_stdout = [CHR ''a'', CHR 0x00, CHR ''b''], child_stderr = []\<rparr>)\<rparr>"

definition os_exit1_nul :: os where
  "os_exit1_nul =
     os_ok\<lparr>run_result :=
             (\<lambda>c. \<lparr>run_error = Some ''exit status 1'', child_pid = Some 4242,
                    child_stdout = [CHR ''a'', CHR 0x00, CHR ''b''], child_stderr = []\<rparr>)\<rparr>"

text \<open>The child writes 70000 bytes to its stdout, and exits with status 0 or 1.\<close>

definition os_flood :: os where
  "os_flood =
     os_ok\<lparr>run_result :=
             (\<lambda>c. \<lparr>run_error = None, child_pid = Some 4242,
                    child_stdout = replicate 70000 (CHR ''x''), child_stderr = []\<rparr>)\<rparr>"

definition os_exit1_flood :: os where
  "os_exit1_flood =
     os_ok\<lparr>run_result :=
             (\<lambda>c. \<lparr>run_error = Some ''exit status 1'', child_pid = Some 4242,
                    child_stdout = replicate 70000 (CHR ''x''), child_stderr = []\<rparr>)\<rparr>"

text \<open>A step with a script file.\<close>

definition node_with_script :: node where
  "node_with_script =
     node_ex\<lparr>Step := step_ex\<lparr>Command := ''bash'', Args := [''-e''], Script := ''echo hi''\<rparr>,
             scriptFile := Some script_ex\<rparr>"

text \<open>A splitter for the sample steps, which have no \<^verbatim>\<open>CmdWithArgs\<close> and so never call
  it: the whole line is the command.\<close>

definition whole_line :: "string \<Rightarrow> string \<times> string list" where
  "whole_line s = (s, [])"

text \<open>A step with a redirect to an absolute path.\<close>

definition node_redirect_abs :: node where
  "node_redirect_abs = node_ex\<lparr>Step := step_ex\<lparr>Stdout := ''/tmp/hello''\<rparr>\<rparr>"

section \<open>Properties\<close>

subsection \<open>teardown\<close>

lemma flush_writers_fst:
  "fst (flush_writers w ws e) =
     (let errs = List.map_filter (\<lambda>x. Option.bind x (flush_result w)) ws
      in if errs = [] then e else Some (last errs))"
proof (induction ws arbitrary: e)
  case Nil
  show ?case by (simp add: List.map_filter_simps)
next
  case (Cons a ws)
  show ?case
  proof (cases a)
    case None
    then show ?thesis using Cons.IH [of e] by (simp add: List.map_filter_simps)
  next
    case (Some x)
    then show ?thesis
      using Cons.IH [of e] Cons.IH [of "flush_result w x"]
      by (cases "flush_result w x")
         (simp_all add: List.map_filter_simps Let_def split_beta)
  qed
qed

lemma sync_files_fst:
  "fst (sync_files w fs e) =
     (let errs = List.map_filter (\<lambda>x. Option.bind x (sync_result w)) fs
      in if errs = [] then e else Some (last errs))"
proof (induction fs arbitrary: e)
  case Nil
  show ?case by (simp add: List.map_filter_simps)
next
  case (Cons a fs)
  show ?case
  proof (cases a)
    case None
    then show ?thesis using Cons.IH [of e] by (simp add: List.map_filter_simps)
  next
    case (Some x)
    then show ?thesis
      using Cons.IH [of e] Cons.IH [of "sync_result w x"]
      by (cases "sync_result w x")
         (simp_all add: List.map_filter_simps Let_def split_beta)
  qed
qed

lemma teardown_errors_split:
  "teardown_errors w n =
     List.map_filter (\<lambda>x. Option.bind x (flush_result w)) [logWriter n, stdoutWriter n] @
     List.map_filter (\<lambda>x. Option.bind x (sync_result w)) [logFile n, stdoutFile n]"
  by (simp add: teardown_errors_def List.map_filter_simps split: option.splits)

lemma teardown_result:
  assumes "\<not> done_flag n"
  shows "fst (teardown w n) =
     (if teardown_errors w n = [] then None else Some (last (teardown_errors w n)))"
proof -
  define F where "F = List.map_filter (\<lambda>x. Option.bind x (flush_result w)) [logWriter n, stdoutWriter n]"
  define S where "S = List.map_filter (\<lambda>x. Option.bind x (sync_result w)) [logFile n, stdoutFile n]"
  define e1 where "e1 = fst (flush_writers w [logWriter n, stdoutWriter n] None)"
  have e1: "e1 = (if F = [] then None else Some (last F))"
    unfolding e1_def F_def flush_writers_fst Let_def ..
  have "fst (teardown w n) = fst (sync_files w [logFile n, stdoutFile n] e1)"
    using assms by (simp add: teardown_def Let_def split_beta e1_def)
  also have "\<dots> = (if S = [] then e1 else Some (last S))"
    unfolding S_def sync_files_fst Let_def ..
  also have "\<dots> = (if F @ S = [] then None else Some (last (F @ S)))"
    by (simp add: e1)
  finally show ?thesis
    unfolding teardown_errors_split F_def S_def .
qed

lemma teardown_node:
  "\<not> done_flag n \<Longrightarrow>
   fst (snd (teardown w n)) =
     (case fst (teardown w n) of
        None \<Rightarrow> n\<lparr>done_flag := True\<rparr>
      | Some err \<Rightarrow> set_Error (Some err) (n\<lparr>done_flag := True\<rparr>))"
  by (simp add: teardown_def Let_def split_beta)

text \<open>
  Claim C1, as the code has it. A \<^verbatim>\<open>teardown\<close> that has not run before returns the
  last error it meets among the flush of the log writer, the flush of the stdout writer,
  the sync of the log file and the sync of the stdout file, and stores that error in
  \<^verbatim>\<open>n.Error\<close> over whatever was there; when none of the four fails it returns nil and
  leaves \<^verbatim>\<open>n.Error\<close> as it was.
\<close>

theorem teardown_records_last_error:
  assumes "\<not> done_flag n" and "teardown w n = (r, n', t)"
  shows "r = (if teardown_errors w n = [] then None else Some (last (teardown_errors w n))) \<and>
         Error (State n') = (if teardown_errors w n = [] then Error (State n) else r)"
proof -
  have r: "r = (if teardown_errors w n = [] then None else Some (last (teardown_errors w n)))"
    using teardown_result [OF assms(1), of w] assms(2) by simp
  have "n' = (case r of None \<Rightarrow> n\<lparr>done_flag := True\<rparr>
              | Some err \<Rightarrow> set_Error (Some err) (n\<lparr>done_flag := True\<rparr>))"
    using teardown_node [OF assms(1), of w] assms(2) by simp
  then have "Error (State n') = (case r of None \<Rightarrow> Error (State n) | Some err \<Rightarrow> Some err)"
    by (cases r) (simp_all add: set_Error_def)
  with r show ?thesis by (cases r) (auto split: if_splits)
qed

theorem teardown_records_last_error_witness:
  "\<not> done_flag node_exited \<and>
   fst (teardown os_flaky node_exited) = Some ''sync: input/output error'' \<and>
   Error (State (fst (snd (teardown os_flaky node_exited)))) = Some ''sync: input/output error''"
proof -
  have h1: "\<not> done_flag node_exited"
    by (simp add: node_exited_def node_ex_def set_Error_def)
  have h2: "teardown os_flaky node_exited =
              (fst (teardown os_flaky node_exited), fst (snd (teardown os_flaky node_exited)),
               snd (snd (teardown os_flaky node_exited)))"
    by simp
  have errs: "teardown_errors os_flaky node_exited =
                [''write: no space left on device'', ''sync: input/output error'']"
    by (simp add: teardown_errors_def List.map_filter_simps node_exited_def node_ex_def
        set_Error_def os_flaky_def os_ok_def log_ex_def out_ex_def)
  from teardown_records_last_error [OF h1 h2] h1 show ?thesis
    by (simp add: errs)
qed

text \<open>
  Claim C1 as it is stated fails: the node holds the exit error of its child, the flush of
  the log writer fails first and the sync of the redirect file fails after it; after
  \<^verbatim>\<open>teardown\<close> the node's error is the later of the two, neither the first one nor
  the error that was there before.
\<close>

theorem teardown_first_error_counterexample:
  "Error (State node_exited) = Some ''exit status 1'' \<and>
   hd (teardown_errors os_flaky node_exited) = ''write: no space left on device'' \<and>
   Error (State (fst (snd (teardown os_flaky node_exited)))) = Some ''sync: input/output error'' \<and>
   Error (State (fst (snd (teardown os_flaky node_exited)))) \<noteq> Error (State node_exited) \<and>
   Error (State (fst (snd (teardown os_flaky node_exited)))) \<noteq>
     Some (hd (teardown_errors os_flaky node_exited))"
  by (simp add: teardown_def teardown_errors_def List.map_filter_simps node_exited_def node_ex_def
      set_Error_def os_flaky_def os_ok_def log_ex_def out_ex_def Let_def)

lemma flush_writers_calls:
  "snd (flush_writers w ws e) = concat (map (\<lambda>x. case x of None \<Rightarrow> [] | Some y \<Rightarrow> [Flush y]) ws)"
  by (induction w ws e rule: flush_writers.induct) (simp_all add: split_beta Let_def)

lemma sync_files_calls:
  "snd (sync_files w fs e) =
     concat (map (\<lambda>x. case x of None \<Rightarrow> [] | Some f \<Rightarrow> [Sync f, Close f]) fs)"
  by (induction w fs e rule: sync_files.induct) (simp_all add: split_beta Let_def)

lemma teardown_first_calls:
  "\<not> done_flag n \<Longrightarrow> snd (snd (teardown w n)) = teardown_calls n"
  by (simp add: teardown_def teardown_calls_def Let_def split_beta flush_writers_calls
      sync_files_calls)

lemma teardown_sets_done: "done_flag (fst (snd (teardown w n)))"
  by (simp add: teardown_def Let_def split_beta set_Error_def split: option.splits)

lemma teardown_done: "done_flag n \<Longrightarrow> teardown w n = (None, n, [])"
  by (simp add: teardown_def)

lemma teardown_again_done:
  "done_flag n \<Longrightarrow> teardown_again ws n = (replicate (length ws) (None, []), n)"
  by (induction ws) (simp_all add: teardown_done)

text \<open>
  Claim C9. \<^verbatim>\<open>teardown\<close> is idempotent: a first call (the done flag not yet set) makes
  the flushes, the syncs and closes and the removal of the script file, and sets the done
  flag; every later call on the node, whatever the operating system would answer, returns
  nil, calls nothing and leaves the node as it is.
\<close>

theorem teardown_idempotent:
  assumes "teardown w n = (r, n', t)"
  shows "(\<not> done_flag n \<longrightarrow> t = teardown_calls n) \<and> done_flag n' \<and>
         teardown_again ws n' = (replicate (length ws) (None, []), n')"
proof -
  have n': "n' = fst (snd (teardown w n))" and t: "t = snd (snd (teardown w n))"
    using assms by simp_all
  have d: "done_flag n'"
    unfolding n' by (rule teardown_sets_done)
  show ?thesis
    using d teardown_again_done [OF d, of ws] teardown_first_calls [of n w]
    by (simp add: t)
qed

theorem teardown_idempotent_witness:
  "\<not> done_flag node_exited \<and>
   snd (snd (teardown os_flaky node_exited)) =
     [Flush (NewWriter log_ex), Flush (NewWriter out_ex), Sync log_ex, Close log_ex,
      Sync out_ex, Close out_ex, Remove ''/work/dagu_script-1234''] \<and>
   done_flag (fst (snd (teardown os_flaky node_exited))) \<and>
   teardown_again [os_flaky, os_ok] (fst (snd (teardown os_flaky node_exited))) =
     ([(None, []), (None, [])], fst (snd (teardown os_flaky node_exited)))"
proof -
  have h1: "\<not> done_flag node_exited"
    by (simp add: node_exited_def node_ex_def set_Error_def)
  have h2: "teardown os_flaky node_exited =
              (fst (teardown os_flaky node_exited), fst (snd (teardown os_flaky node_exited)),
               snd (snd (teardown os_flaky node_exited)))"
    by simp
  have c: "teardown_calls node_exited =
     [Flush (NewWriter log_ex), Flush (NewWriter out_ex), Sync log_ex, Close log_ex,
      Sync out_ex, Close out_ex, Remove ''/work/dagu_script-1234'']"
    by (simp add: teardown_calls_def node_exited_def node_ex_def set_Error_def script_ex_def)
  from teardown_idempotent [OF h2, of "[os_flaky, os_ok]"] h1 show ?thesis
    by (simp add: c)
qed

subsection \<open>signal\<close>

text \<open>
  Claim C4, as the code has it. With the status Running and a started child,
  \<^verbatim>\<open>signal\<close> sends the signal to the negative pid of the child and the status
  becomes Canceled. With the status Running and no command yet (\<^verbatim>\<open>n.cmd\<close> is nil),
  nothing is sent and the status becomes Canceled all the same. With any other status
  nothing is sent and the node is unchanged. A call after a call that returned sends nothing
  and changes nothing.
\<close>

theorem signal_running_or_not:
  "(Status (State n) = NodeStatus_Running \<longrightarrow>
      (\<forall>c pid. cmd n = Some c \<and> Process c = Some pid \<longrightarrow>
         signal sig n = Inr (updateStatus NodeStatus_Cancel n, [Kill (- pid) sig])) \<and>
      (cmd n = None \<longrightarrow> signal sig n = Inr (updateStatus NodeStatus_Cancel n, []))) \<and>
   (Status (State n) \<noteq> NodeStatus_Running \<longrightarrow> signal sig n = Inr (n, [])) \<and>
   (\<forall>n' t. signal sig n = Inr (n', t) \<longrightarrow> signal sig' n' = Inr (n', []))"
  by (auto simp: signal_def updateStatus_def Let_def split: option.splits if_splits)

theorem signal_running_or_not_witness:
  "Status (State node_running) = NodeStatus_Running \<and>
   cmd node_running = Some cmd_ex \<and> Process cmd_ex = Some 4242 \<and>
   signal 15 node_running = Inr (updateStatus NodeStatus_Cancel node_running, [Kill (- 4242) 15]) \<and>
   signal 9 (updateStatus NodeStatus_Cancel node_running) =
     Inr (updateStatus NodeStatus_Cancel node_running, []) \<and>
   Status (State node_ex) \<noteq> NodeStatus_Running \<and> signal 15 node_ex = Inr (node_ex, [])"
proof -
  have h1: "Status (State node_running) = NodeStatus_Running"
    by (simp add: node_running_def updateStatus_def)
  have h2: "cmd node_running = Some cmd_ex \<and> Process cmd_ex = Some 4242"
    by (simp add: node_running_def cmd_ex_def)
  have h3: "Status (State node_ex) \<noteq> NodeStatus_Running"
    by (simp add: node_ex_def)
  have a: "signal 15 node_running =
             Inr (updateStatus NodeStatus_Cancel node_running, [Kill (- 4242) 15])"
    using signal_running_or_not [of node_running 15 9] h1 h2 by blast
  have b: "signal 9 (updateStatus NodeStatus_Cancel node_running) =
             Inr (updateStatus NodeStatus_Cancel node_running, [])"
    using signal_running_or_not [of node_running 15 9] a by blast
  have c: "signal 15 node_ex = Inr (node_ex, [])"
    using signal_running_or_not [of node_ex 15 9] h3 by blast
  show ?thesis using h1 h2 h3 a b c by simp
qed

text \<open>
  Claim C4 as it is stated fails for a node that is Running while its \<^verbatim>\<open>Execute\<close> has
  not yet made the command: the guard \<^verbatim>\<open>n.cmd != nil\<close> skips the kill, no signal is
  sent, and the status still becomes Canceled.
\<close>

theorem signal_without_child_counterexample:
  "Status (State node_waiting) = NodeStatus_Running \<and>
   signal 15 node_waiting = Inr (updateStatus NodeStatus_Cancel node_waiting, [])"
  by (simp add: signal_def node_waiting_def node_ex_def updateStatus_def)


subsection \<open>Paths and timestamps\<close>

lemma is_digit_digit_char: "is_digit (digit_char d)"
proof -
  have "list_all is_digit ''0123456789''"
    by (simp add: is_digit_def)
  moreover have "d mod 10 < length ''0123456789''"
    by simp
  ultimately show ?thesis
    unfolding digit_char_def list_all_length by blast
qed

lemma digits_all_digit: "list_all is_digit (digits n)"
proof (induction n rule: digits.induct)
  case (1 n)
  show ?case
  proof (cases "n < 10")
    case True
    then show ?thesis by (subst digits.simps) (simp add: is_digit_digit_char)
  next
    case False
    with 1 show ?thesis by (subst digits.simps) (simp add: is_digit_digit_char)
  qed
qed

lemma length_digits: "0 < k \<Longrightarrow> n < 10 ^ k \<Longrightarrow> length (digits n) \<le> k"
proof (induction n arbitrary: k rule: digits.induct)
  case (1 n)
  show ?case
  proof (cases "n < 10")
    case True
    with 1(2) show ?thesis by (subst digits.simps) simp
  next
    case False
    then obtain j where k: "k = Suc j" and j: "0 < j"
      using 1(2,3) by (cases k; cases "k - 1") auto
    have "n div 10 < 10 ^ j" using 1(3) k by (simp add: less_mult_imp_div_less mult.commute)
    from 1(1) [OF False j this] False k show ?thesis
      by (subst digits.simps) simp
  qed
qed

lemma appendInt_shape:
  assumes "0 < k" and "n < 10 ^ k"
  shows "length (appendInt n k) = k \<and> list_all is_digit (appendInt n k)"
proof -
  have "is_digit (CHR ''0'')" by (simp add: is_digit_def)
  then have "list_all is_digit (replicate (k - length (digits n)) (CHR ''0''))"
    by (simp add: list_all_iff)
  then show ?thesis
    using length_digits [OF assms] digits_all_digit [of n]
    by (simp add: appendInt_def)
qed

lemma matches_digits: "list_all is_digit s \<Longrightarrow> matches_layout (replicate (length s) (CHR ''d'')) s"
  by (induction s) simp_all

lemma matches_layout_append:
  "length l1 = length s1 \<Longrightarrow>
   matches_layout (l1 @ l2) (s1 @ s2) = (matches_layout l1 s1 \<and> matches_layout l2 s2)"
  by (induction l1 s1 rule: matches_layout.induct) simp_all

lemma matches_field:
  assumes "0 < k" and "n < 10 ^ k"
  shows "matches_layout (replicate k (CHR ''d'') @ l) (appendInt n k @ s) = matches_layout l s"
  using appendInt_shape [OF assms] matches_digits [of "appendInt n k"]
  by (simp add: matches_layout_append)

lemma matches_millis:
  assumes "n < 10 ^ 9"
  shows "matches_layout ''ddd'' (take 3 (appendInt n 9))"
proof -
  have a: "length (appendInt n 9) = 9" and b: "list_all is_digit (appendInt n 9)"
    using appendInt_shape [of 9 n] assms by simp_all
  have "list_all is_digit (take 3 (appendInt n 9))"
    using b by (auto simp: list_all_iff dest: in_set_takeD)
  from matches_digits [OF this] a show ?thesis
    by (simp add: numeral_3_eq_3)
qed

lemma Format_shape: "valid_time t \<Longrightarrow> timestamp_shape (Format t)"
proof -
  assume v: "valid_time t"
  have y: "year t < 10 ^ 4" and mo: "month t < 10 ^ 2" and d: "day t < 10 ^ 2"
    and h: "hour t < 10 ^ 2" and mi: "minute t < 10 ^ 2" and s: "second t < 10 ^ 2"
    and ns: "nanosecond t < 10 ^ 9"
    using v by (simp_all add: valid_time_def)
  have l: "''dddddddd.dd:dd:dd.ddd'' =
        replicate 4 (CHR ''d'') @ replicate 2 (CHR ''d'') @ replicate 2 (CHR ''d'') @ ''.'' @
        replicate 2 (CHR ''d'') @ '':'' @ replicate 2 (CHR ''d'') @ '':'' @
        replicate 2 (CHR ''d'') @ ''.'' @ ''ddd''"
    by (simp add: numeral_eq_Suc)
  show ?thesis
    unfolding timestamp_shape_def Format_def l
    using matches_millis [OF ns]
    by (simp only: matches_field [OF _ y] matches_field [OF _ mo] matches_field [OF _ d]
        matches_field [OF _ h] matches_field [OF _ mi] matches_field [OF _ s]
        append_Cons append_Nil matches_layout.simps zero_less_numeral if_False char.inject
        simp_thms)
qed

lemma appendInt_digits: "list_all is_digit (appendInt n k)"
proof -
  have "is_digit (CHR ''0'')" by (simp add: is_digit_def)
  then have "list_all is_digit (replicate (k - length (digits n)) (CHR ''0''))"
    by (simp add: list_all_iff)
  then show ?thesis
    using digits_all_digit [of n] by (simp add: appendInt_def)
qed

lemma slash_not_digit: "list_all is_digit s \<Longrightarrow> CHR ''/'' \<notin> set s"
  by (auto simp: list_all_iff is_digit_def)

lemma Format_no_slash: "CHR ''/'' \<notin> set (Format t)"
proof -
  have "CHR ''/'' \<notin> set (appendInt n k)" for n k
    by (rule slash_not_digit) (rule appendInt_digits)
  moreover have "CHR ''/'' \<notin> set (take 3 (appendInt n k))" for n k
    using calculation [of n k] by (auto dest: in_set_takeD)
  ultimately show ?thesis
    by (simp add: Format_def)
qed

lemma split_on_not_Nil: "split_on sep s \<noteq> []"
  by (induction s) (simp_all split: list.splits)

lemma split_on_no_sep: "sep \<notin> set x \<Longrightarrow> split_on sep x = [x]"
  by (induction x) auto

lemma split_on_append: "split_on sep (a @ sep # b) = split_on sep a @ split_on sep b"
proof (induction a)
  case Nil
  show ?case by simp
next
  case (Cons c a)
  obtain x xs where s: "split_on sep a = x # xs"
    using split_on_not_Nil [of sep a] by (cases "split_on sep a") auto
  show ?case using Cons s by simp
qed

lemma join_path_snoc: "ys \<noteq> [] \<Longrightarrow> join_path (ys @ [x]) = join_path ys @ ''/'' @ x"
  by (induction ys rule: join_path.induct) simp_all

lemma filepath_Join_literal:
  assumes clean: "filepath_Clean d = d" and root: "d \<noteq> ''/''" and dot: "d \<noteq> ''.''"
    and x: "CHR ''/'' \<notin> set x" "x \<noteq> []" "x \<noteq> ''.''" "x \<noteq> ''..''"
  shows "filepath_Join [d, x] = d @ ''/'' @ x"
proof -
  have d: "d \<noteq> []" using clean by (auto simp: filepath_Clean_def)
  define r where "r = filepath_IsAbs d"
  define kept where "kept = foldl (clean_step r) [] (split_on (CHR ''/'') d)"
  define out where "out = (if r then ''/'' else []) @ join_path (rev kept)"
  have cd: "filepath_Clean d = (if out = [] then ''.'' else out)"
    using d by (simp add: filepath_Clean_def Let_def r_def kept_def out_def)
  have kept: "kept \<noteq> []"
  proof
    assume "kept = []"
    then have "filepath_Clean d = ''/'' \<or> filepath_Clean d = ''.''"
      by (simp add: cd out_def)
    with clean root dot show False by simp
  qed
  have out: "out = d" using cd clean dot by (simp split: if_splits)
  have r': "filepath_IsAbs (d @ CHR ''/'' # x) = r"
    using d by (cases d) (simp_all add: filepath_IsAbs_def r_def)
  have sp: "split_on (CHR ''/'') (d @ CHR ''/'' # x) = split_on (CHR ''/'') d @ [x]"
    using split_on_append [of "CHR ''/''" d x] x(1) by (simp add: split_on_no_sep)
  have k': "foldl (clean_step r) [] (split_on (CHR ''/'') (d @ CHR ''/'' # x)) = x # kept"
    using x by (simp add: sp kept_def clean_step_def)
  have "filepath_Clean (d @ ''/'' @ x) = out @ ''/'' @ x"
    using kept by (simp add: filepath_Clean_def Let_def r' k' out_def join_path_snoc)
  then show ?thesis using d by (simp add: out)
qed

lemma filepath_Clean_not_Nil: "filepath_Clean p \<noteq> []"
  by (simp add: filepath_Clean_def Let_def)

lemma filepath_Join_not_Nil: "x \<noteq> [] \<Longrightarrow> filepath_Join [d, x] \<noteq> []"
  by (simp add: filepath_Clean_not_Nil)

lemma ValidFilename_map:
  "ValidFilename safe name ''_'' = map (\<lambda>c. if safe c then c else CHR ''_'') name"
  by (induction name) (simp_all add: ValidFilename_def)

lemma ValidFilename_no_slash:
  "\<not> safe (CHR ''/'') \<Longrightarrow> CHR ''/'' \<notin> set (ValidFilename safe name ''_'')"
  by (auto simp: ValidFilename_map)

lemma log_name_no_slash:
  assumes "\<not> safe (CHR ''/'')" and "CHR ''/'' \<notin> set (take 8 requestId)"
  shows "CHR ''/'' \<notin> set (log_name safe name t requestId)"
  using assms ValidFilename_no_slash [of safe name] Format_no_slash [of t]
  by (simp add: log_name_def TruncString_def)

lemma log_name_not_special:
  "log_name safe name t requestId \<noteq> [] \<and> log_name safe name t requestId \<noteq> ''.'' \<and>
   log_name safe name t requestId \<noteq> ''..''"
proof -
  have "length (log_name safe name t requestId) \<ge> 4"
    by (simp add: log_name_def)
  then show ?thesis by auto
qed

lemma log_path_not_Nil: "filepath_Join [d, log_name safe name t requestId] \<noteq> []"
  using log_name_not_special [of safe name t requestId] by (intro filepath_Join_not_Nil) simp


subsection \<open>setup\<close>

lemma setupLog_same: "same_log n (fst (snd (setupLog w n)))"
  by (simp add: setupLog_def same_log_def set_Error_def split: sum.splits)

lemma setupStdout_same: "same_log n (fst (snd (setupStdout w n)))"
  by (simp add: setupStdout_def same_log_def set_Error_def Let_def split: sum.splits)

lemma setupScript_same: "same_log n (fst (snd (setupScript w n)))"
  by (simp add: setupScript_def same_log_def Let_def split: sum.splits option.splits)

lemma same_log_trans: "same_log a b \<Longrightarrow> same_log b c \<Longrightarrow> same_log a c"
  by (simp add: same_log_def)

lemma same_log_set_Error: "same_log a b \<Longrightarrow> same_log a (set_Error e b)"
  by (simp add: same_log_def set_Error_def)

lemma run_setups_same:
  assumes "\<And>fn m. fn \<in> set fns \<Longrightarrow> same_log m (fst (snd (fn w m)))"
  shows "same_log n (fst (snd (run_setups w fns n)))"
  using assms
proof (induction fns arbitrary: n)
  case Nil
  show ?case by (simp add: same_log_def)
next
  case (Cons fn fns)
  obtain r n1 t where f: "fn w n = (r, n1, t)" by (cases "fn w n") auto
  have s1: "same_log n n1" using Cons.prems [of fn n] f by simp
  show ?case
  proof (cases r)
    case None
    have "same_log n1 (fst (snd (run_setups w fns n1)))"
      by (rule Cons.IH) (simp add: Cons.prems)
    with s1 have "same_log n (fst (snd (run_setups w fns n1)))"
      by (rule same_log_trans)
    then show ?thesis using f None by (simp add: split_beta)
  next
    case (Some e)
    then show ?thesis using f s1 by (simp add: same_log_set_Error)
  qed
qed

lemma node_setup_same:
  "same_log
     (n\<lparr>State := (State n)\<lparr>StartedAt := clock w,
          Log := filepath_Join [logDir, log_name safe (Name (Step n)) (clock w) requestId]\<rparr>\<rparr>)
     (fst (snd (node_setup safe w logDir requestId n)))"
proof -
  have "same_log m (fst (snd (fn w m)))"
    if "fn \<in> set [setupLog, setupStdout, setupScript]" for fn m
    using that setupLog_same setupStdout_same setupScript_same by auto
  then have "same_log m (fst (snd (run_setups w [setupLog, setupStdout, setupScript] m)))" for m
    by (rule run_setups_same)
  then show ?thesis
    by (simp add: node_setup_def Let_def)
qed

lemma node_setup_Log:
  "Log (State (fst (snd (node_setup safe w logDir requestId n)))) =
     filepath_Join [logDir, log_name safe (Name (Step n)) (clock w) requestId]"
  using node_setup_same [where n = n and w = w and logDir = logDir and safe = safe
        and requestId = requestId]
  by (simp add: same_log_def)

text \<open>
  Claim C5. \<^verbatim>\<open>setup\<close> sets \<^verbatim>\<open>StartedAt\<close> to the current time and the log path to the
  join of the log directory with
  \<^verbatim>\<open>{sanitized name}.{timestamp}.{first 8 characters of the request id}.log\<close>.
  The sanitized name is the step name with every character that is not filename-safe
  replaced by \<^verbatim>\<open>_\<close>. The timestamp of a time in the years 0 to 9999 has the shape
  \<^verbatim>\<open>YYYYMMDD.HH:MM:SS.mmm\<close>. For a log directory that is a clean path other than
  \<^verbatim>\<open>/\<close> and \<^verbatim>\<open>.\<close>, with no \<^verbatim>\<open>/\<close> among the filename-safe characters nor in the
  first 8 characters of the request id, the join is the log directory, a \<^verbatim>\<open>/\<close> and the
  file name, literally.
\<close>

theorem setup_log_path:
  assumes "node_setup safe w logDir requestId n = (r, n', t)"
  shows "StartedAt (State n') = clock w \<and>
         Log (State n') =
           filepath_Join [logDir,
             ValidFilename safe (Name (Step n)) ''_'' @ ''.'' @ Format (clock w) @ ''.'' @
             take 8 requestId @ ''.log''] \<and>
         ValidFilename safe (Name (Step n)) ''_'' =
           map (\<lambda>c. if safe c then c else CHR ''_'') (Name (Step n)) \<and>
         (valid_time (clock w) \<longrightarrow> timestamp_shape (Format (clock w))) \<and>
         (filepath_Clean logDir = logDir \<and> logDir \<noteq> ''/'' \<and> logDir \<noteq> ''.'' \<and>
          \<not> safe (CHR ''/'') \<and> CHR ''/'' \<notin> set (take 8 requestId) \<longrightarrow>
            Log (State n') =
              logDir @ ''/'' @ ValidFilename safe (Name (Step n)) ''_'' @ ''.'' @
              Format (clock w) @ ''.'' @ take 8 requestId @ ''.log'')"
proof -
  define name where "name = log_name safe (Name (Step n)) (clock w) requestId"
  have name: "name = ValidFilename safe (Name (Step n)) ''_'' @ ''.'' @ Format (clock w) @ ''.'' @
             take 8 requestId @ ''.log''"
    by (simp add: name_def log_name_def TruncString_def)
  have n': "n' = fst (snd (node_setup safe w logDir requestId n))"
    using assms by simp
  have st: "StartedAt (State n') = clock w" and lg: "Log (State n') = filepath_Join [logDir, name]"
    using node_setup_same [where n = n and w = w and logDir = logDir and safe = safe
        and requestId = requestId]
    by (simp_all add: same_log_def n' name_def)
  have lit: "filepath_Join [logDir, name] = logDir @ ''/'' @ name"
    if "filepath_Clean logDir = logDir" "logDir \<noteq> ''/''" "logDir \<noteq> ''.''"
       "\<not> safe (CHR ''/'')" "CHR ''/'' \<notin> set (take 8 requestId)"
    using that log_name_no_slash [of safe requestId "Name (Step n)" "clock w"]
      log_name_not_special [of safe "Name (Step n)" "clock w" requestId]
    unfolding name_def by (intro filepath_Join_literal) simp_all
  have lit': "Log (State n') = logDir @ ''/'' @ name"
    if "filepath_Clean logDir = logDir \<and> logDir \<noteq> ''/'' \<and> logDir \<noteq> ''.'' \<and>
        \<not> safe (CHR ''/'') \<and> CHR ''/'' \<notin> set (take 8 requestId)"
    using that lit lg by simp
  show ?thesis
    unfolding name [symmetric]
    using st lg lit' Format_shape [of "clock w"]
    by (simp add: ValidFilename_map)
qed

theorem setup_log_path_witness:
  "valid_time (clock os_ok) \<and> filepath_Clean ''/logs'' = ''/logs'' \<and> \<not> safe_ex (CHR ''/'') \<and>
   CHR ''/'' \<notin> set (take 8 ''0a1b2c3d-4e5f'') \<and>
   StartedAt (State (fst (snd (node_setup safe_ex os_ok ''/logs'' ''0a1b2c3d-4e5f'' node_ex)))) =
     time_ex \<and>
   Log (State (fst (snd (node_setup safe_ex os_ok ''/logs'' ''0a1b2c3d-4e5f'' node_ex)))) =
     ''/logs/step_1.20220509.07:03:41.025.0a1b2c3d.log'' \<and>
   timestamp_shape ''20220509.07:03:41.025''"
proof -
  have h: "node_setup safe_ex os_ok ''/logs'' ''0a1b2c3d-4e5f'' node_ex =
      (fst (node_setup safe_ex os_ok ''/logs'' ''0a1b2c3d-4e5f'' node_ex),
       fst (snd (node_setup safe_ex os_ok ''/logs'' ''0a1b2c3d-4e5f'' node_ex)),
       snd (snd (node_setup safe_ex os_ok ''/logs'' ''0a1b2c3d-4e5f'' node_ex)))"
    by simp
  have v: "valid_time (clock os_ok)"
    by (simp add: os_ok_def time_ex_def valid_time_def)
  have c: "filepath_Clean ''/logs'' = ''/logs''"
    by (simp add: filepath_Clean_def filepath_IsAbs_def clean_step_def)
  have s: "\<not> safe_ex (CHR ''/'')"
    by (simp add: safe_ex_def)
  have r: "CHR ''/'' \<notin> set (take 8 ''0a1b2c3d-4e5f'')"
    by simp
  have f: "Format (clock os_ok) = ''20220509.07:03:41.025''"
    by (simp add: os_ok_def time_ex_def Format_def appendInt_def digits.simps digit_char_def)
  have n: "ValidFilename safe_ex (Name (Step node_ex)) ''_'' = ''step_1''"
    by (simp add: ValidFilename_def node_ex_def step_ex_def safe_ex_def)
  have k: "clock os_ok = time_ex"
    by (simp add: os_ok_def)
  note t = setup_log_path [OF h]
  have 1: "StartedAt (State (fst (snd (node_setup safe_ex os_ok ''/logs'' ''0a1b2c3d-4e5f'' node_ex))))
             = time_ex"
    using t k by simp
  have 2: "Log (State (fst (snd (node_setup safe_ex os_ok ''/logs'' ''0a1b2c3d-4e5f'' node_ex)))) =
             ''/logs'' @ ''/'' @ ValidFilename safe_ex (Name (Step node_ex)) ''_'' @ ''.'' @
              Format (clock os_ok) @ ''.'' @ take 8 ''0a1b2c3d-4e5f'' @ ''.log''"
    using t v c s r by blast
  have 3: "timestamp_shape (Format (clock os_ok))"
    using t v by blast
  show ?thesis
    using v c s r 1 2 3 by (simp add: f n)
qed

text \<open>
  Claim C7 fails on the code for the script file. The step has a script and its
  directory does not exist, so that \<^verbatim>\<open>os.CreateTemp\<close> fails. \<^verbatim>\<open>setupScript\<close> drops
  that error, writes to the nil file, and \<^verbatim>\<open>setup\<close> returns and records
  \<^verbatim>\<open>invalid argument\<close> instead of the error of the creation, which
  \<^verbatim>\<open>setupLog\<close> and \<^verbatim>\<open>setupStdout\<close> do return.
\<close>

theorem setup_script_create_error_lost:
  "Script (Step node_script) \<noteq> [] \<and>
   createtemp_result os_no_temp (Dir (Step node_script)) ''dagu_script-'' =
     Inl ''open /nowhere/dagu_script-1234: no such file or directory'' \<and>
   fst (node_setup safe_ex os_no_temp ''/logs'' ''0a1b2c3d-4e5f'' node_script) =
     Some ''invalid argument'' \<and>
   Error (State (fst (snd (node_setup safe_ex os_no_temp ''/logs'' ''0a1b2c3d-4e5f'' node_script)))) =
     Some ''invalid argument''"
proof -
  have l: "filepath_Join [''/logs'', log_name safe_ex ''step 1'' time_ex ''0a1b2c3d-4e5f''] \<noteq> []"
    by (rule log_path_not_Nil)
  show ?thesis
    using l
    by (simp add: node_setup_def setupLog_def setupStdout_def setupScript_def set_Error_def
        Let_def node_script_def node_ex_def step_ex_def os_no_temp_def os_ok_def ErrInvalid_def
        del: filepath_Join.simps)
qed

lemma setupLog_ok:
  "Log (State m) \<noteq> [] \<Longrightarrow> open_result w (Log (State m)) = Inr lf \<Longrightarrow>
   setupLog w m =
     (None, m\<lparr>logFile := Some lf, logWriter := Some (NewWriter lf)\<rparr>,
      [OpenOrCreateFile (Log (State m))])"
  by (simp add: setupLog_def)

lemma setupLog_failed:
  "Log (State m) \<noteq> [] \<Longrightarrow> open_result w (Log (State m)) = Inl e \<Longrightarrow>
   setupLog w m =
     (Some e, set_Error (Some e) (m\<lparr>logFile := None\<rparr>), [OpenOrCreateFile (Log (State m))])"
  by (simp add: setupLog_def)

lemma setupStdout_ok:
  "Stdout (Step m) \<noteq> [] \<Longrightarrow> open_result w (stdout_path m) = Inr f \<Longrightarrow>
   setupStdout w m =
     (None, m\<lparr>stdoutFile := Some f, stdoutWriter := Some (NewWriter f)\<rparr>,
      [OpenOrCreateFile (stdout_path m)])"
  by (simp add: setupStdout_def Let_def)

lemma setupStdout_failed:
  "Stdout (Step m) \<noteq> [] \<Longrightarrow> open_result w (stdout_path m) = Inl e \<Longrightarrow>
   setupStdout w m =
     (Some e, set_Error (Some e) (m\<lparr>stdoutFile := None\<rparr>), [OpenOrCreateFile (stdout_path m)])"
  by (simp add: setupStdout_def Let_def)

lemma setupStdout_skipped: "Stdout (Step m) = [] \<Longrightarrow> setupStdout w m = (None, m, [])"
  by (simp add: setupStdout_def)

lemma setupScript_keeps:
  "stdoutFile (fst (snd (setupScript w m))) = stdoutFile m \<and>
   stdoutWriter (fst (snd (setupScript w m))) = stdoutWriter m \<and>
   logFile (fst (snd (setupScript w m))) = logFile m \<and>
   logWriter (fst (snd (setupScript w m))) = logWriter m"
  by (simp add: setupScript_def Let_def split: sum.splits option.splits)

lemma run_setups_ok:
  "fn w m = (None, m', t) \<Longrightarrow>
   run_setups w (fn # fns) m =
     (fst (run_setups w fns m'), fst (snd (run_setups w fns m')),
      t @ snd (snd (run_setups w fns m')))"
  by (simp add: split_beta)

lemma run_setups_failed:
  "fn w m = (Some e, m', t) \<Longrightarrow> run_setups w (fn # fns) m = (Some e, set_Error (Some e) m', t)"
  by simp

lemma set_Error_keeps:
  "stdoutFile (set_Error e m) = stdoutFile m \<and> stdoutWriter (set_Error e m) = stdoutWriter m \<and>
   logFile (set_Error e m) = logFile m \<and> logWriter (set_Error e m) = logWriter m \<and>
   scriptFile (set_Error e m) = scriptFile m \<and> Error (State (set_Error e m)) = e"
  by (simp add: set_Error_def)

lemma run_setups_script_keeps:
  "stdoutFile (fst (snd (run_setups w [setupScript] m))) = stdoutFile m \<and>
   stdoutWriter (fst (snd (run_setups w [setupScript] m))) = stdoutWriter m"
proof -
  obtain r m' t where f: "setupScript w m = (r, m', t)"
    by (cases "setupScript w m") auto
  have "stdoutFile m' = stdoutFile m \<and> stdoutWriter m' = stdoutWriter m"
    using setupScript_keeps [of w m] f by simp
  then show ?thesis
    using f by (cases r) (simp_all add: set_Error_keeps)
qed

text \<open>When the log file or the redirect file cannot be opened, \<^verbatim>\<open>setup\<close> stops there
  with the error of the opening: it returns and records it, makes no further call and
  leaves the files of the later sub-steps as they were.\<close>

lemma setup_stops_at_log_error:
  assumes "node_setup safe w logDir requestId n = (r, n', t)"
    and "open_result w (Log (State n')) = Inl e"
  shows "r = Some e \<and> Error (State n') = Some e \<and> t = [OpenOrCreateFile (Log (State n'))] \<and>
         stdoutFile n' = stdoutFile n \<and> stdoutWriter n' = stdoutWriter n \<and>
         scriptFile n' = scriptFile n"
proof -
  define L where "L = filepath_Join [logDir, log_name safe (Name (Step n)) (clock w) requestId]"
  have L: "Log (State n') = L"
    using node_setup_Log [of safe w logDir requestId n] assms(1) by (simp add: L_def)
  have L0: "L \<noteq> []"
    unfolding L_def by (rule log_path_not_Nil)
  define n2 where "n2 = n\<lparr>State := (State n)\<lparr>StartedAt := clock w, Log := L\<rparr>\<rparr>"
  have s: "node_setup safe w logDir requestId n = run_setups w [setupLog, setupStdout, setupScript] n2"
    by (simp add: node_setup_def Let_def n2_def L_def)
  have "setupLog w n2 =
          (Some e, set_Error (Some e) (n2\<lparr>logFile := None\<rparr>), [OpenOrCreateFile L])"
    using setupLog_failed [of n2 w e] L0 assms(2) L by (simp add: n2_def)
  then have "run_setups w [setupLog, setupStdout, setupScript] n2 =
          (Some e, set_Error (Some e) (set_Error (Some e) (n2\<lparr>logFile := None\<rparr>)),
           [OpenOrCreateFile L])"
    by (rule run_setups_failed)
  then show ?thesis
    using assms(1) unfolding s L by (auto simp: set_Error_def n2_def)
qed

lemma setup_stops_at_redirect_error:
  assumes "Stdout (Step n) \<noteq> []"
    and "node_setup safe w logDir requestId n = (r, n', t)"
    and "open_result w (Log (State n')) = Inr lf"
    and "open_result w (stdout_path n) = Inl e"
  shows "r = Some e \<and> Error (State n') = Some e \<and>
         t = [OpenOrCreateFile (Log (State n')), OpenOrCreateFile (stdout_path n)] \<and>
         scriptFile n' = scriptFile n"
proof -
  define L where "L = filepath_Join [logDir, log_name safe (Name (Step n)) (clock w) requestId]"
  have L: "Log (State n') = L"
    using node_setup_Log [of safe w logDir requestId n] assms(2) by (simp add: L_def)
  have L0: "L \<noteq> []"
    unfolding L_def by (rule log_path_not_Nil)
  define n2 where "n2 = n\<lparr>State := (State n)\<lparr>StartedAt := clock w, Log := L\<rparr>\<rparr>"
  define n3 where "n3 = n2\<lparr>logFile := Some lf, logWriter := Some (NewWriter lf)\<rparr>"
  have s: "node_setup safe w logDir requestId n = run_setups w [setupLog, setupStdout, setupScript] n2"
    by (simp add: node_setup_def Let_def n2_def L_def)
  have p: "stdout_path n3 = stdout_path n" and q: "Stdout (Step n3) \<noteq> []"
    using assms(1) by (simp_all add: stdout_path_def n3_def n2_def Let_def del: filepath_Join.simps)
  have 1: "setupLog w n2 = (None, n3, [OpenOrCreateFile L])"
    using setupLog_ok [of n2 w lf] L0 assms(3) L by (simp add: n3_def n2_def)
  note u = run_setups_ok [where fn = setupLog and w = w and m = n2
      and fns = "[setupStdout, setupScript]", OF 1]
  have "setupStdout w n3 = (Some e, set_Error (Some e) (n3\<lparr>stdoutFile := None\<rparr>),
            [OpenOrCreateFile (stdout_path n)])"
    using setupStdout_failed [of n3 w e] q assms(4) p by simp
  then have "run_setups w [setupStdout, setupScript] n3 =
            (Some e, set_Error (Some e) (set_Error (Some e) (n3\<lparr>stdoutFile := None\<rparr>)),
             [OpenOrCreateFile (stdout_path n)])"
    by (rule run_setups_failed)
  then have "node_setup safe w logDir requestId n =
            (Some e, set_Error (Some e) (set_Error (Some e) (n3\<lparr>stdoutFile := None\<rparr>)),
             [OpenOrCreateFile L, OpenOrCreateFile (stdout_path n)])"
    unfolding s u by simp
  then show ?thesis
    using assms(2) unfolding L by (auto simp: set_Error_def n3_def n2_def)
qed

text \<open>
  Claim C8. For a step with a stdout redirect, \<^verbatim>\<open>setup\<close>, once the log file is open,
  opens or creates the redirect file: at the declared path when that path is absolute,
  and otherwise at the declared path joined under the step's directory. When the file
  opens it becomes the node's redirect file, with a buffered writer on it.
\<close>

theorem setup_opens_redirect:
  assumes "Stdout (Step n) \<noteq> []"
    and "node_setup safe w logDir requestId n = (r, n', t)"
    and "open_result w (Log (State n')) = Inr lf"
  shows "take 2 t =
           [OpenOrCreateFile (Log (State n')),
            OpenOrCreateFile
              (if filepath_IsAbs (Stdout (Step n)) then Stdout (Step n)
               else filepath_Join [Dir (Step n), Stdout (Step n)])] \<and>
         (\<forall>f. open_result w
                 (if filepath_IsAbs (Stdout (Step n)) then Stdout (Step n)
                  else filepath_Join [Dir (Step n), Stdout (Step n)]) = Inr f \<longrightarrow>
              stdoutFile n' = Some f \<and> stdoutWriter n' = Some (NewWriter f))"
proof -
  define L where "L = filepath_Join [logDir, log_name safe (Name (Step n)) (clock w) requestId]"
  have L: "Log (State n') = L"
    using node_setup_Log [of safe w logDir requestId n] assms(2) by (simp add: L_def)
  have L0: "L \<noteq> []"
    unfolding L_def by (rule log_path_not_Nil)
  have o: "open_result w L = Inr lf"
    using assms(3) L by simp
  define n2 where "n2 = n\<lparr>State := (State n)\<lparr>StartedAt := clock w, Log := L\<rparr>\<rparr>"
  define n3 where "n3 = n2\<lparr>logFile := Some lf, logWriter := Some (NewWriter lf)\<rparr>"
  define P where "P = (if filepath_IsAbs (Stdout (Step n)) then Stdout (Step n)
       else filepath_Join [Dir (Step n), Stdout (Step n)])"
  have s: "node_setup safe w logDir requestId n = run_setups w [setupLog, setupStdout, setupScript] n2"
    by (simp add: node_setup_def Let_def n2_def L_def)
  have p: "stdout_path n3 = P"
    by (simp add: stdout_path_def n3_def n2_def Let_def P_def del: filepath_Join.simps)
  have q: "Stdout (Step n3) \<noteq> []" "Log (State n2) = L"
    using assms(1) by (simp_all add: n3_def n2_def)
  have 1: "setupLog w n2 = (None, n3, [OpenOrCreateFile L])"
    using setupLog_ok [of n2 w lf] q(2) L0 o by (simp add: n3_def)
  note u = run_setups_ok [where fn = setupLog and w = w and m = n2
      and fns = "[setupStdout, setupScript]", OF 1]
  have "take 2 t = [OpenOrCreateFile L, OpenOrCreateFile P] \<and>
        (\<forall>f. open_result w P = Inr f \<longrightarrow>
              stdoutFile n' = Some f \<and> stdoutWriter n' = Some (NewWriter f))"
  proof (cases "open_result w P")
    case (Inl e)
    have "setupStdout w n3 = (Some e, set_Error (Some e) (n3\<lparr>stdoutFile := None\<rparr>),
            [OpenOrCreateFile P])"
      using setupStdout_failed [of n3 w e] q(1) Inl p by simp
    then have "run_setups w [setupStdout, setupScript] n3 =
            (Some e, set_Error (Some e) (set_Error (Some e) (n3\<lparr>stdoutFile := None\<rparr>)),
             [OpenOrCreateFile P])"
      by (rule run_setups_failed)
    then have "node_setup safe w logDir requestId n =
            (Some e, set_Error (Some e) (set_Error (Some e) (n3\<lparr>stdoutFile := None\<rparr>)),
             [OpenOrCreateFile L, OpenOrCreateFile P])"
      unfolding s u by simp
    then have "t = [OpenOrCreateFile L, OpenOrCreateFile P]"
      using assms(2) by simp
    then show ?thesis using Inl by simp
  next
    case (Inr f)
    define n4 where "n4 = n3\<lparr>stdoutFile := Some f, stdoutWriter := Some (NewWriter f)\<rparr>"
    have "setupStdout w n3 = (None, n4, [OpenOrCreateFile P])"
      using setupStdout_ok [of n3 w f] q(1) Inr p by (simp add: n4_def)
    note v = run_setups_ok [where fn = setupStdout and w = w and m = n3
        and fns = "[setupScript]", OF this]
    have k: "stdoutFile (fst (snd (run_setups w [setupScript] n4))) = Some f \<and>
             stdoutWriter (fst (snd (run_setups w [setupScript] n4))) = Some (NewWriter f)"
      using run_setups_script_keeps [of w n4] by (simp add: n4_def)
    have "node_setup safe w logDir requestId n =
            (fst (run_setups w [setupScript] n4), fst (snd (run_setups w [setupScript] n4)),
             [OpenOrCreateFile L] @ [OpenOrCreateFile P] @ snd (snd (run_setups w [setupScript] n4)))"
      unfolding s u v by simp
    then have "t = OpenOrCreateFile L # OpenOrCreateFile P # snd (snd (run_setups w [setupScript] n4))"
      and "n' = fst (snd (run_setups w [setupScript] n4))"
      using assms(2) by simp_all
    then show ?thesis using k Inr by simp
  qed
  then show ?thesis
    unfolding L P_def .
qed

theorem setup_opens_redirect_witness:
  "Stdout (Step node_redirect) \<noteq> [] \<and> \<not> filepath_IsAbs (Stdout (Step node_redirect)) \<and>
   take 2 (snd (snd (node_setup safe_ex os_ok ''/logs'' ''0a1b2c3d-4e5f'' node_redirect))) =
     [OpenOrCreateFile ''/logs/step_1.20220509.07:03:41.025.0a1b2c3d.log'',
      OpenOrCreateFile ''/work/out.txt''] \<and>
   stdoutFile (fst (snd (node_setup safe_ex os_ok ''/logs'' ''0a1b2c3d-4e5f'' node_redirect))) =
     Some (File 3 ''/work/out.txt'') \<and>
   Stdout (Step node_redirect_abs) \<noteq> [] \<and> filepath_IsAbs (Stdout (Step node_redirect_abs)) \<and>
   take 2 (snd (snd (node_setup safe_ex os_ok ''/logs'' ''0a1b2c3d-4e5f'' node_redirect_abs))) =
     [OpenOrCreateFile ''/logs/step_1.20220509.07:03:41.025.0a1b2c3d.log'',
      OpenOrCreateFile ''/tmp/hello''] \<and>
   stdoutFile (fst (snd (node_setup safe_ex os_ok ''/logs'' ''0a1b2c3d-4e5f'' node_redirect_abs))) =
     Some (File 3 ''/tmp/hello'')"
proof -
  have o: "open_result os_ok p = Inr (File 3 p)" for p
    by (simp add: os_ok_def)
  have k: "clock os_ok = time_ex"
    by (simp add: os_ok_def)
  have l: "filepath_Join [''/logs'', log_name safe_ex ''step 1'' time_ex ''0a1b2c3d-4e5f''] =
           ''/logs/step_1.20220509.07:03:41.025.0a1b2c3d.log''"
    by (simp add: log_name_def ValidFilename_def safe_ex_def Format_def time_ex_def appendInt_def
        digits.simps digit_char_def TruncString_def filepath_Clean_def filepath_IsAbs_def
        clean_step_def)
  have a: "Stdout (Step node_redirect) \<noteq> []" "\<not> filepath_IsAbs (Stdout (Step node_redirect))"
      "Name (Step node_redirect) = ''step 1''"
    and j: "filepath_Join [Dir (Step node_redirect), Stdout (Step node_redirect)] = ''/work/out.txt''"
    by (simp_all add: node_redirect_def node_ex_def step_ex_def filepath_IsAbs_def
        filepath_Clean_def clean_step_def)
  have b: "Stdout (Step node_redirect_abs) \<noteq> []" "filepath_IsAbs (Stdout (Step node_redirect_abs))"
      "Stdout (Step node_redirect_abs) = ''/tmp/hello''"
      "Name (Step node_redirect_abs) = ''step 1''"
    by (simp_all add: node_redirect_abs_def node_ex_def step_ex_def filepath_IsAbs_def)
  have e1: "node_setup safe_ex os_ok ''/logs'' ''0a1b2c3d-4e5f'' node_redirect =
      (fst (node_setup safe_ex os_ok ''/logs'' ''0a1b2c3d-4e5f'' node_redirect),
       fst (snd (node_setup safe_ex os_ok ''/logs'' ''0a1b2c3d-4e5f'' node_redirect)),
       snd (snd (node_setup safe_ex os_ok ''/logs'' ''0a1b2c3d-4e5f'' node_redirect)))"
    by simp
  have e2: "node_setup safe_ex os_ok ''/logs'' ''0a1b2c3d-4e5f'' node_redirect_abs =
      (fst (node_setup safe_ex os_ok ''/logs'' ''0a1b2c3d-4e5f'' node_redirect_abs),
       fst (snd (node_setup safe_ex os_ok ''/logs'' ''0a1b2c3d-4e5f'' node_redirect_abs)),
       snd (snd (node_setup safe_ex os_ok ''/logs'' ''0a1b2c3d-4e5f'' node_redirect_abs)))"
    by simp
  have l1: "Log (State (fst (snd (node_setup safe_ex os_ok ''/logs'' ''0a1b2c3d-4e5f'' node_redirect))))
            = ''/logs/step_1.20220509.07:03:41.025.0a1b2c3d.log''"
    unfolding node_setup_Log k a(3) l ..
  have l2: "Log (State (fst (snd (node_setup safe_ex os_ok ''/logs'' ''0a1b2c3d-4e5f'' node_redirect_abs))))
            = ''/logs/step_1.20220509.07:03:41.025.0a1b2c3d.log''"
    unfolding node_setup_Log k b(4) l ..
  note t1 = setup_opens_redirect [OF a(1) e1 o]
  note t2 = setup_opens_redirect [OF b(1) e2 o]
  show ?thesis
    using t1 t2 a(1,2) b(1,2)
    unfolding l1 l2 j b(3)
    by (simp add: o)
qed

subsection \<open>Execute\<close>

lemma resolve_command_keeps:
  "Output (Step (resolve_command split env m)) = Output (Step m) \<and>
   scriptFile (resolve_command split env m) = scriptFile m \<and>
   outputReader (resolve_command split env m) = outputReader m \<and>
   outputWriter (resolve_command split env m) = outputWriter m \<and>
   State (resolve_command split env m) = State m"
  by (simp add: resolve_command_def split_beta)

lemma PipeWriter_in_targets: "PipeWriter wr \<in> set (targets (MultiWriter [s, PipeWriter wr]))"
  by (simp add: MultiWriter_def targets_def)

lemma pipe_in_targets: "list_ex is_pipe (targets (MultiWriter [s, PipeWriter wr]))"
  by (simp add: MultiWriter_def targets_def is_pipe_def)

lemma build_cmd_no_pipe: "\<not> list_ex is_pipe (targets (cmd_Stdout (build_cmd m)))"
  by (simp add: build_cmd_def Let_def MultiWriter_def targets_def is_pipe_def)

lemma Execute_no_output:
  assumes "Output (Step n) = []"
  shows "Execute split w env n =
     (let n1 = resolve_command split env (n\<lparr>cancelFunc := True\<rparr>);
          c = build_cmd n1;
          res = run_result w c
      in (Returned (run_error res),
          set_Error (run_error res) (n1\<lparr>cmd := Some (c\<lparr>Process := child_pid res\<rparr>)\<rparr>),
          env, [Run c]))"
  using assms resolve_command_keeps [of split env "n\<lparr>cancelFunc := True\<rparr>"]
  by (simp add: Execute_def Let_def set_Error_def pipe_full_def build_cmd_no_pipe)

lemma Execute_pipe_failed:
  assumes "Output (Step n) \<noteq> []" and "pipe_result w = Inl e"
  shows "Execute split w env n =
     (let n1 = resolve_command split env (n\<lparr>cancelFunc := True\<rparr>)
      in (Returned (Some e),
          n1\<lparr>cmd := Some (build_cmd n1), outputReader := None, outputWriter := None\<rparr>,
          env, [Pipe]))"
  using assms resolve_command_keeps [of split env "n\<lparr>cancelFunc := True\<rparr>"]
  by (simp add: Execute_def Let_def)

text \<open>With a capture variable and a pipe, \<^verbatim>\<open>Execute\<close> blocks or returns according to
  what the child writes to its stdout.\<close>

lemma Execute_captured:
  assumes "Output (Step n) \<noteq> []" and "pipe_result w = Inr (rd, wr)"
  shows "Execute split w env n =
     (let n1 = resolve_command split env (n\<lparr>cancelFunc := True\<rparr>);
          c = build_cmd n1\<lparr>cmd_Stdout := MultiWriter [cmd_Stdout (build_cmd n1), PipeWriter wr]\<rparr>;
          res = run_result w c;
          val = TrimSpace (child_stdout res);
          started = n1\<lparr>cmd := Some (c\<lparr>Process := child_pid res\<rparr>),
                       outputReader := Some rd, outputWriter := Some wr\<rparr>
      in if pipe_capacity w < length (child_stdout res)
         then (Blocked, started, env, [Pipe, Run c])
         else (Returned (run_error res), set_Error (run_error res) started,
               os_Setenv env (Output (Step n)) val,
               [Pipe, Run c, Close wr, Copy rd, Setenv (Output (Step n)) val]))"
  using assms resolve_command_keeps [of split env "n\<lparr>cancelFunc := True\<rparr>"]
  by (simp add: Execute_def Let_def set_Error_def pipe_contents_def PipeWriter_in_targets
      on_file_def pipe_full_def pipe_in_targets)

text \<open>With a capture variable, a run of the child is always a run into the pipe; when
  the child's stdout fits into the pipe, \<^verbatim>\<open>Execute\<close> returns.\<close>

lemma Execute_with_output:
  assumes "Output (Step n) \<noteq> []" and "Execute split w env n = (r, n', env', t)"
    and "Run c \<in> set t"
    and "length (child_stdout (run_result w c)) \<le> pipe_capacity w"
  shows "\<exists>rd wr. pipe_result w = Inr (rd, wr) \<and>
           PipeWriter wr \<in> set (targets (cmd_Stdout c)) \<and>
           r = Returned (run_error (run_result w c)) \<and>
           Error (State n') = run_error (run_result w c) \<and>
           env' = os_Setenv env (Output (Step n)) (TrimSpace (child_stdout (run_result w c))) \<and>
           t = [Pipe, Run c, Close wr, Copy rd,
                Setenv (Output (Step n)) (TrimSpace (child_stdout (run_result w c)))]"
proof (cases "pipe_result w")
  case (Inl e)
  from Execute_pipe_failed [OF assms(1) Inl, of split env] assms(2,3)
  show ?thesis by (simp add: Let_def)
next
  case (Inr p)
  obtain rd wr where p: "p = (rd, wr)" by (cases p) auto
  from Execute_captured [OF assms(1), of w rd wr split env] Inr p assms(2,3,4)
  show ?thesis
    by (auto simp: Let_def set_Error_def PipeWriter_in_targets split: if_splits)
qed

text \<open>With a capture variable and a child that writes more than the pipe holds,
  \<^verbatim>\<open>Execute\<close> does not return: the node's error is not set and the environment is as it
  was.\<close>

lemma Execute_blocks_on_full_pipe:
  assumes "Output (Step n) \<noteq> []" and "Execute split w env n = (r, n', env', t)"
    and "Run c \<in> set t"
    and "pipe_capacity w < length (child_stdout (run_result w c))"
  shows "r = Blocked \<and> env' = env \<and> Error (State n') = Error (State n) \<and> t = [Pipe, Run c]"
proof (cases "pipe_result w")
  case (Inl e)
  from Execute_pipe_failed [OF assms(1) Inl, of split env] assms(2,3)
  show ?thesis by (simp add: Let_def)
next
  case (Inr p)
  obtain rd wr where p: "p = (rd, wr)" by (cases p) auto
  from Execute_captured [OF assms(1), of w rd wr split env] Inr p assms(2,3,4)
    resolve_command_keeps [of split env "n\<lparr>cancelFunc := True\<rparr>"]
  show ?thesis
    by (auto simp: Let_def set_Error_def split: if_splits)
qed

lemma Execute_capture_ex:
  assumes p: "pipe_result w = Inr (File 6 ''|0'', File 7 ''|1'')"
  shows "Execute whole_line w Map.empty node_capture =
     (if pipe_capacity w < length (child_stdout (run_result w cmd_capture))
      then (Blocked,
            node_capture\<lparr>cancelFunc := True,
              cmd := Some (cmd_capture\<lparr>Process := child_pid (run_result w cmd_capture)\<rparr>),
              outputReader := Some (File 6 ''|0''), outputWriter := Some (File 7 ''|1'')\<rparr>,
            Map.empty, [Pipe, Run cmd_capture])
      else (Returned (run_error (run_result w cmd_capture)),
            set_Error (run_error (run_result w cmd_capture))
              (node_capture\<lparr>cancelFunc := True,
                 cmd := Some (cmd_capture\<lparr>Process := child_pid (run_result w cmd_capture)\<rparr>),
                 outputReader := Some (File 6 ''|0''), outputWriter := Some (File 7 ''|1'')\<rparr>),
            os_Setenv Map.empty ''GREETING'' (TrimSpace (child_stdout (run_result w cmd_capture))),
            [Pipe, Run cmd_capture, Close (File 7 ''|1''), Copy (File 6 ''|0''),
             Setenv ''GREETING'' (TrimSpace (child_stdout (run_result w cmd_capture)))]))"
proof -
  have o: "Output (Step node_capture) \<noteq> []"
    by (simp add: node_capture_def)
  have r: "resolve_command whole_line Map.empty (node_capture\<lparr>cancelFunc := True\<rparr>) =
           node_capture\<lparr>cancelFunc := True\<rparr>"
    by (simp add: resolve_command_def node_capture_def node_ex_def step_ex_def)
  have b: "build_cmd (node_capture\<lparr>cancelFunc := True\<rparr>)
             \<lparr>cmd_Stdout := MultiWriter [cmd_Stdout (build_cmd (node_capture\<lparr>cancelFunc := True\<rparr>)),
                                         PipeWriter (File 7 ''|1'')]\<rparr> = cmd_capture"
    by (simp add: build_cmd_def child_args_def node_capture_def node_ex_def step_ex_def
        cmd_capture_def MultiWriter_def targets_def)
  have g: "Output (Step node_capture) = ''GREETING''"
    by (simp add: node_capture_def)
  show ?thesis
    unfolding Execute_captured [OF o p] Let_def r b g by simp
qed

lemma pipe_ex:
  "pipe_result os_ok = Inr (File 6 ''|0'', File 7 ''|1'')"
  "pipe_result os_nul = Inr (File 6 ''|0'', File 7 ''|1'')"
  "pipe_result os_flood = Inr (File 6 ''|0'', File 7 ''|1'')"
  "pipe_result os_exit1 = Inr (File 6 ''|0'', File 7 ''|1'')"
  "pipe_result os_exit1_nul = Inr (File 6 ''|0'', File 7 ''|1'')"
  "pipe_result os_exit1_flood = Inr (File 6 ''|0'', File 7 ''|1'')"
  by (simp_all add: os_ok_def os_nul_def os_flood_def os_exit1_def os_exit1_nul_def
      os_exit1_flood_def)

lemma TrimSpace_ex:
  "TrimSpace (''  hi'' @ [CHR 0x0A]) = ''hi''" "TrimSpace ''half done '' = ''half done''"
  "TrimSpace [CHR ''a'', CHR 0x00, CHR ''b''] = [CHR ''a'', CHR 0x00, CHR ''b'']"
  by (simp_all add: TrimSpace_def is_space1_def is_space2_def is_space3_def)

lemma setenv_ok_ex:
  "setenv_ok ''GREETING'' ''hi''" "setenv_ok ''GREETING'' ''half done''"
  "\<not> setenv_ok ''GREETING'' [CHR ''a'', CHR 0x00, CHR ''b'']"
  by (simp_all add: setenv_ok_def)

lemma run_ex:
  "run_result os_ok c = \<lparr>run_error = None, child_pid = Some 4242,
      child_stdout = ''  hi'' @ [CHR 0x0A], child_stderr = []\<rparr>"
  "run_result os_nul c = \<lparr>run_error = None, child_pid = Some 4242,
      child_stdout = [CHR ''a'', CHR 0x00, CHR ''b''], child_stderr = []\<rparr>"
  "run_result os_flood c = \<lparr>run_error = None, child_pid = Some 4242,
      child_stdout = replicate 70000 (CHR ''x''), child_stderr = []\<rparr>"
  "run_result os_exit1 c = \<lparr>run_error = Some ''exit status 1'', child_pid = Some 4242,
      child_stdout = ''half done '', child_stderr = ''boom''\<rparr>"
  "run_result os_exit1_nul c = \<lparr>run_error = Some ''exit status 1'', child_pid = Some 4242,
      child_stdout = [CHR ''a'', CHR 0x00, CHR ''b''], child_stderr = []\<rparr>"
  "run_result os_exit1_flood c = \<lparr>run_error = Some ''exit status 1'', child_pid = Some 4242,
      child_stdout = replicate 70000 (CHR ''x''), child_stderr = []\<rparr>"
  by (simp_all add: os_ok_def os_nul_def os_flood_def os_exit1_def os_exit1_nul_def
      os_exit1_flood_def)

lemma capacity_ex:
  "pipe_capacity os_ok = 65536" "pipe_capacity os_nul = 65536" "pipe_capacity os_flood = 65536"
  "pipe_capacity os_exit1 = 65536" "pipe_capacity os_exit1_nul = 65536"
  "pipe_capacity os_exit1_flood = 65536"
  by (simp_all add: os_ok_def os_nul_def os_flood_def os_exit1_def os_exit1_nul_def
      os_exit1_flood_def)

text \<open>
  Claim C2, as the code has it. The step declares a capture variable, \<^verbatim>\<open>Execute\<close> runs
  the child as the command \<open>c\<close>, the child exits normally (the error of
  \<^verbatim>\<open>cmd.Run()\<close> is nil) and what the child writes to its stdout fits into the capture
  pipe. Then
  \<^verbatim>\<open>Execute\<close> returns nil, the child's stdout went into the pipe, the pipe is read, and
  \<^verbatim>\<open>os.Setenv\<close> is called with the variable name and the bytes the child wrote to its
  stdout, trimmed of white space. Where \<^verbatim>\<open>os.Setenv\<close> accepts them (a name without
  \<^verbatim>\<open>=\<close> and NUL, a value without NUL) the environment is the one before with the
  trimmed bytes under the name; where it refuses them the environment is unchanged.
\<close>

theorem Execute_stores_captured_output:
  assumes "Output (Step n) \<noteq> []"
    and "Execute split w env n = (r, n', env', t)"
    and "Run c \<in> set t"
    and "run_error (run_result w c) = None"
    and "length (child_stdout (run_result w c)) \<le> pipe_capacity w"
  shows "r = Returned None \<and>
         (\<exists>rd wr. pipe_result w = Inr (rd, wr) \<and>
            PipeWriter wr \<in> set (targets (cmd_Stdout c)) \<and> Copy rd \<in> set t) \<and>
         Setenv (Output (Step n)) (TrimSpace (child_stdout (run_result w c))) \<in> set t \<and>
         (setenv_ok (Output (Step n)) (TrimSpace (child_stdout (run_result w c))) \<longrightarrow>
            env' = env(Output (Step n) \<mapsto> TrimSpace (child_stdout (run_result w c)))) \<and>
         (\<not> setenv_ok (Output (Step n)) (TrimSpace (child_stdout (run_result w c))) \<longrightarrow>
            env' = env)"
proof -
  from Execute_with_output [OF assms(1-3,5)] obtain rd wr where
    "pipe_result w = Inr (rd, wr)" "PipeWriter wr \<in> set (targets (cmd_Stdout c))"
    "r = Returned (run_error (run_result w c))"
    "env' = os_Setenv env (Output (Step n)) (TrimSpace (child_stdout (run_result w c)))"
    "t = [Pipe, Run c, Close wr, Copy rd,
          Setenv (Output (Step n)) (TrimSpace (child_stdout (run_result w c)))]"
    by blast
  then show ?thesis
    using assms(4) by (simp add: os_Setenv_def)
qed

theorem Execute_stores_captured_output_witness:
  "Output (Step node_capture) \<noteq> [] \<and>
   Run cmd_capture \<in> set (snd (snd (snd (Execute whole_line os_ok Map.empty node_capture)))) \<and>
   run_error (run_result os_ok cmd_capture) = None \<and>
   length (child_stdout (run_result os_ok cmd_capture)) \<le> pipe_capacity os_ok \<and>
   TrimSpace (child_stdout (run_result os_ok cmd_capture)) = ''hi'' \<and>
   setenv_ok ''GREETING'' ''hi'' \<and>
   fst (Execute whole_line os_ok Map.empty node_capture) = Returned None \<and>
   fst (snd (snd (Execute whole_line os_ok Map.empty node_capture))) = [''GREETING'' \<mapsto> ''hi''] \<and>
   Run cmd_capture \<in> set (snd (snd (snd (Execute whole_line os_nul Map.empty node_capture)))) \<and>
   run_error (run_result os_nul cmd_capture) = None \<and>
   length (child_stdout (run_result os_nul cmd_capture)) \<le> pipe_capacity os_nul \<and>
   \<not> setenv_ok ''GREETING'' (TrimSpace (child_stdout (run_result os_nul cmd_capture))) \<and>
   fst (snd (snd (Execute whole_line os_nul Map.empty node_capture))) = Map.empty"
proof -
  have h1: "Output (Step node_capture) \<noteq> []" and g: "Output (Step node_capture) = ''GREETING''"
    by (simp_all add: node_capture_def)
  have e1: "Execute whole_line os_ok Map.empty node_capture =
      (fst (Execute whole_line os_ok Map.empty node_capture),
       fst (snd (Execute whole_line os_ok Map.empty node_capture)),
       fst (snd (snd (Execute whole_line os_ok Map.empty node_capture))),
       snd (snd (snd (Execute whole_line os_ok Map.empty node_capture))))"
    by simp
  have e2: "Execute whole_line os_nul Map.empty node_capture =
      (fst (Execute whole_line os_nul Map.empty node_capture),
       fst (snd (Execute whole_line os_nul Map.empty node_capture)),
       fst (snd (snd (Execute whole_line os_nul Map.empty node_capture))),
       snd (snd (snd (Execute whole_line os_nul Map.empty node_capture))))"
    by simp
  have r1: "Run cmd_capture \<in> set (snd (snd (snd (Execute whole_line os_ok Map.empty node_capture))))"
    unfolding Execute_capture_ex [OF pipe_ex(1)] by (simp add: run_ex capacity_ex)
  have r2: "Run cmd_capture \<in> set (snd (snd (snd (Execute whole_line os_nul Map.empty node_capture))))"
    unfolding Execute_capture_ex [OF pipe_ex(2)] by (simp add: run_ex capacity_ex)
  have x1: "run_error (run_result os_ok cmd_capture) = None"
    and l1: "length (child_stdout (run_result os_ok cmd_capture)) \<le> pipe_capacity os_ok"
    and t1: "TrimSpace (child_stdout (run_result os_ok cmd_capture)) = ''hi''"
    by (simp_all add: run_ex capacity_ex TrimSpace_ex [simplified])
  have x2: "run_error (run_result os_nul cmd_capture) = None"
    and l2: "length (child_stdout (run_result os_nul cmd_capture)) \<le> pipe_capacity os_nul"
    and t2: "TrimSpace (child_stdout (run_result os_nul cmd_capture)) =
               [CHR ''a'', CHR 0x00, CHR ''b'']"
    by (simp_all add: run_ex capacity_ex TrimSpace_ex)
  note a = Execute_stores_captured_output [OF h1 e1 r1 x1 l1]
  note b = Execute_stores_captured_output [OF h1 e2 r2 x2 l2]
  have 1: "fst (Execute whole_line os_ok Map.empty node_capture) = Returned None"
    using a by blast
  have 2: "fst (snd (snd (Execute whole_line os_ok Map.empty node_capture))) =
             [''GREETING'' \<mapsto> ''hi'']"
    using a setenv_ok_ex(1) unfolding g t1 by blast
  have 3: "fst (snd (snd (Execute whole_line os_nul Map.empty node_capture))) = Map.empty"
    using b setenv_ok_ex(3) unfolding g t2 by blast
  show ?thesis
    using h1 r1 x1 l1 t1 setenv_ok_ex(1) 1 2 r2 x2 l2 setenv_ok_ex(3) 3
    unfolding t2 by simp
qed

text \<open>
  Claim C2 as it is stated fails. A child that writes \<^verbatim>\<open>a\<close>, a NUL byte and \<^verbatim>\<open>b\<close>
  and exits normally leaves nothing under the variable: \<^verbatim>\<open>os.Setenv\<close> refuses the
  value and \<^verbatim>\<open>Execute\<close> drops its error. A child that writes 70000 bytes fills the
  pipe of 65536: \<^verbatim>\<open>Execute\<close> does not return and nothing is stored either.
\<close>

theorem Execute_capture_refused_counterexample:
  "Output (Step node_capture) = ''GREETING'' \<and>
   Run cmd_capture \<in> set (snd (snd (snd (Execute whole_line os_nul Map.empty node_capture)))) \<and>
   run_error (run_result os_nul cmd_capture) = None \<and>
   TrimSpace (child_stdout (run_result os_nul cmd_capture)) = [CHR ''a'', CHR 0x00, CHR ''b''] \<and>
   fst (Execute whole_line os_nul Map.empty node_capture) = Returned None \<and>
   fst (snd (snd (Execute whole_line os_nul Map.empty node_capture))) ''GREETING'' = None \<and>
   Run cmd_capture \<in> set (snd (snd (snd (Execute whole_line os_flood Map.empty node_capture)))) \<and>
   run_error (run_result os_flood cmd_capture) = None \<and>
   length (child_stdout (run_result os_flood cmd_capture)) = 70000 \<and>
   fst (Execute whole_line os_flood Map.empty node_capture) = Blocked \<and>
   fst (snd (snd (Execute whole_line os_flood Map.empty node_capture))) ''GREETING'' = None"
  unfolding Execute_capture_ex [OF pipe_ex(2)] Execute_capture_ex [OF pipe_ex(3)]
  by (simp add: run_ex capacity_ex TrimSpace_ex os_Setenv_def setenv_ok_def node_capture_def)

text \<open>
  Claim C10, as the code has it. The step declares a capture variable, \<^verbatim>\<open>Execute\<close>
  runs the child as the command \<open>c\<close>, and what the child writes to its stdout fits into
  the capture pipe. Whatever \<^verbatim>\<open>cmd.Run()\<close> returns, an exit status other than 0
  included, \<^verbatim>\<open>Execute\<close> returns that error and stores it in the node, and its last call
  is the \<^verbatim>\<open>os.Setenv\<close> of the variable name with the trimmed bytes of the child's
  stdout. Where \<^verbatim>\<open>os.Setenv\<close> accepts them the environment is the one before with the
  trimmed bytes under the name; where it refuses them the environment is unchanged.
\<close>

theorem Execute_stores_output_on_failure:
  assumes "Output (Step n) \<noteq> []"
    and "Execute split w env n = (r, n', env', t)"
    and "Run c \<in> set t"
    and "length (child_stdout (run_result w c)) \<le> pipe_capacity w"
  shows "r = Returned (run_error (run_result w c)) \<and>
         Error (State n') = run_error (run_result w c) \<and>
         last t = Setenv (Output (Step n)) (TrimSpace (child_stdout (run_result w c))) \<and>
         (setenv_ok (Output (Step n)) (TrimSpace (child_stdout (run_result w c))) \<longrightarrow>
            env' = env(Output (Step n) \<mapsto> TrimSpace (child_stdout (run_result w c)))) \<and>
         (\<not> setenv_ok (Output (Step n)) (TrimSpace (child_stdout (run_result w c))) \<longrightarrow>
            env' = env)"
proof -
  from Execute_with_output [OF assms] obtain rd wr where
    "r = Returned (run_error (run_result w c))"
    "Error (State n') = run_error (run_result w c)"
    "env' = os_Setenv env (Output (Step n)) (TrimSpace (child_stdout (run_result w c)))"
    "t = [Pipe, Run c, Close wr, Copy rd,
          Setenv (Output (Step n)) (TrimSpace (child_stdout (run_result w c)))]"
    by blast
  then show ?thesis
    by (simp add: os_Setenv_def)
qed

theorem Execute_stores_output_on_failure_witness:
  "Output (Step node_capture) \<noteq> [] \<and>
   Run cmd_capture \<in> set (snd (snd (snd (Execute whole_line os_exit1 Map.empty node_capture)))) \<and>
   run_error (run_result os_exit1 cmd_capture) = Some ''exit status 1'' \<and>
   length (child_stdout (run_result os_exit1 cmd_capture)) \<le> pipe_capacity os_exit1 \<and>
   TrimSpace (child_stdout (run_result os_exit1 cmd_capture)) = ''half done'' \<and>
   setenv_ok ''GREETING'' ''half done'' \<and>
   fst (Execute whole_line os_exit1 Map.empty node_capture) = Returned (Some ''exit status 1'') \<and>
   last (snd (snd (snd (Execute whole_line os_exit1 Map.empty node_capture)))) =
     Setenv ''GREETING'' ''half done'' \<and>
   fst (snd (snd (Execute whole_line os_exit1 Map.empty node_capture))) =
     [''GREETING'' \<mapsto> ''half done''] \<and>
   Run cmd_capture \<in> set (snd (snd (snd (Execute whole_line os_exit1_nul Map.empty node_capture)))) \<and>
   length (child_stdout (run_result os_exit1_nul cmd_capture)) \<le> pipe_capacity os_exit1_nul \<and>
   \<not> setenv_ok ''GREETING'' (TrimSpace (child_stdout (run_result os_exit1_nul cmd_capture))) \<and>
   fst (snd (snd (Execute whole_line os_exit1_nul Map.empty node_capture))) = Map.empty"
proof -
  have h1: "Output (Step node_capture) \<noteq> []" and g: "Output (Step node_capture) = ''GREETING''"
    by (simp_all add: node_capture_def)
  have e1: "Execute whole_line os_exit1 Map.empty node_capture =
      (fst (Execute whole_line os_exit1 Map.empty node_capture),
       fst (snd (Execute whole_line os_exit1 Map.empty node_capture)),
       fst (snd (snd (Execute whole_line os_exit1 Map.empty node_capture))),
       snd (snd (snd (Execute whole_line os_exit1 Map.empty node_capture))))"
    by simp
  have e2: "Execute whole_line os_exit1_nul Map.empty node_capture =
      (fst (Execute whole_line os_exit1_nul Map.empty node_capture),
       fst (snd (Execute whole_line os_exit1_nul Map.empty node_capture)),
       fst (snd (snd (Execute whole_line os_exit1_nul Map.empty node_capture))),
       snd (snd (snd (Execute whole_line os_exit1_nul Map.empty node_capture))))"
    by simp
  have r1: "Run cmd_capture \<in> set (snd (snd (snd (Execute whole_line os_exit1 Map.empty node_capture))))"
    unfolding Execute_capture_ex [OF pipe_ex(4)] by (simp add: run_ex capacity_ex)
  have r2: "Run cmd_capture \<in>
              set (snd (snd (snd (Execute whole_line os_exit1_nul Map.empty node_capture))))"
    unfolding Execute_capture_ex [OF pipe_ex(5)] by (simp add: run_ex capacity_ex)
  have x1: "run_error (run_result os_exit1 cmd_capture) = Some ''exit status 1''"
    and l1: "length (child_stdout (run_result os_exit1 cmd_capture)) \<le> pipe_capacity os_exit1"
    and t1: "TrimSpace (child_stdout (run_result os_exit1 cmd_capture)) = ''half done''"
    by (simp_all add: run_ex capacity_ex TrimSpace_ex)
  have l2: "length (child_stdout (run_result os_exit1_nul cmd_capture)) \<le>
              pipe_capacity os_exit1_nul"
    and t2: "TrimSpace (child_stdout (run_result os_exit1_nul cmd_capture)) =
               [CHR ''a'', CHR 0x00, CHR ''b'']"
    by (simp_all add: run_ex capacity_ex TrimSpace_ex)
  note a = Execute_stores_output_on_failure [OF h1 e1 r1 l1]
  note b = Execute_stores_output_on_failure [OF h1 e2 r2 l2]
  have 1: "fst (Execute whole_line os_exit1 Map.empty node_capture) =
             Returned (Some ''exit status 1'')"
    using a unfolding x1 by blast
  have 2: "last (snd (snd (snd (Execute whole_line os_exit1 Map.empty node_capture)))) =
             Setenv ''GREETING'' ''half done''"
    using a unfolding g t1 by blast
  have 3: "fst (snd (snd (Execute whole_line os_exit1 Map.empty node_capture))) =
             [''GREETING'' \<mapsto> ''half done'']"
    using a setenv_ok_ex(2) unfolding g t1 by blast
  have 4: "fst (snd (snd (Execute whole_line os_exit1_nul Map.empty node_capture))) = Map.empty"
    using b setenv_ok_ex(3) unfolding g t2 by blast
  show ?thesis
    using h1 r1 x1 l1 t1 setenv_ok_ex(2) 1 2 3 r2 l2 setenv_ok_ex(3) 4
    unfolding t2 by simp
qed

text \<open>
  Claim C10 as it is stated fails. A child that writes \<^verbatim>\<open>a\<close>, a NUL byte and \<^verbatim>\<open>b\<close>
  and exits with status 1 leaves nothing under the variable: \<^verbatim>\<open>os.Setenv\<close> refuses
  the value. A failing child that writes 70000 bytes fills the pipe of 65536:
  \<^verbatim>\<open>Execute\<close> does not return, and there is no write to the environment on that path.
\<close>

theorem Execute_failure_refused_counterexample:
  "Output (Step node_capture) = ''GREETING'' \<and>
   Run cmd_capture \<in>
     set (snd (snd (snd (Execute whole_line os_exit1_nul Map.empty node_capture)))) \<and>
   TrimSpace (child_stdout (run_result os_exit1_nul cmd_capture)) =
     [CHR ''a'', CHR 0x00, CHR ''b''] \<and>
   fst (Execute whole_line os_exit1_nul Map.empty node_capture) =
     Returned (Some ''exit status 1'') \<and>
   fst (snd (snd (Execute whole_line os_exit1_nul Map.empty node_capture))) ''GREETING'' = None \<and>
   Run cmd_capture \<in>
     set (snd (snd (snd (Execute whole_line os_exit1_flood Map.empty node_capture)))) \<and>
   run_error (run_result os_exit1_flood cmd_capture) = Some ''exit status 1'' \<and>
   length (child_stdout (run_result os_exit1_flood cmd_capture)) = 70000 \<and>
   fst (Execute whole_line os_exit1_flood Map.empty node_capture) = Blocked \<and>
   fst (snd (snd (Execute whole_line os_exit1_flood Map.empty node_capture))) ''GREETING'' = None"
  unfolding Execute_capture_ex [OF pipe_ex(5)] Execute_capture_ex [OF pipe_ex(6)]
  by (simp add: run_ex capacity_ex TrimSpace_ex os_Setenv_def setenv_ok_def node_capture_def)

lemma Execute_cases:
  "Execute split w env n = (r, n', env', t) \<Longrightarrow>
   Step n' = Step (resolve_command split env (n\<lparr>cancelFunc := True\<rparr>)) \<and>
   (\<exists>c. cmd n' = Some c \<and>
        cmd_Args c = cmd_Args (build_cmd (resolve_command split env (n\<lparr>cancelFunc := True\<rparr>)))
        \<and> Path c = Path (build_cmd (resolve_command split env (n\<lparr>cancelFunc := True\<rparr>)))) \<and>
   (\<forall>c. Run c \<in> set t \<longrightarrow>
        cmd_Args c = cmd_Args (build_cmd (resolve_command split env (n\<lparr>cancelFunc := True\<rparr>))))"
proof (cases "Output (Step n) = []")
  case True
  assume "Execute split w env n = (r, n', env', t)"
  with Execute_no_output [OF True, of split w env] show ?thesis
    by (auto simp: Let_def set_Error_def)
next
  case False
  assume e: "Execute split w env n = (r, n', env', t)"
  show ?thesis
  proof (cases "pipe_result w")
    case (Inl err)
    from Execute_pipe_failed [OF False Inl, of split env] e show ?thesis
      by (auto simp: Let_def)
  next
    case (Inr p)
    obtain rd wr where p: "p = (rd, wr)" by (cases p) auto
    from Execute_captured [OF False, of w rd wr split env] Inr p e show ?thesis
      by (auto simp: Let_def set_Error_def split: if_splits)
  qed
qed

lemma build_cmd_args:
  "cmd_Args (build_cmd m) =
     Command (Step m) # Args (Step m) @ (case scriptFile m of None \<Rightarrow> [] | Some f \<Rightarrow> [file_name f])"
  by (simp add: build_cmd_def child_args_def Let_def split: option.splits)

text \<open>
  Claim C6. With a script file, the arguments \<^verbatim>\<open>Execute\<close> gives the child are the
  step's \<^verbatim>\<open>Args\<close> followed by the path of the script file, last; with no script file
  they are the step's \<^verbatim>\<open>Args\<close>. (\<open>cmd_Args\<close> starts with the command itself.) The
  step's \<^verbatim>\<open>Args\<close> are those declared whenever \<^verbatim>\<open>CmdWithArgs\<close> is empty.
\<close>

theorem Execute_appends_script_path:
  assumes "Execute split w env n = (r, n', env', t)"
  shows "(\<forall>f. scriptFile n = Some f \<longrightarrow>
            (\<exists>c. cmd n' = Some c \<and>
                 cmd_Args c = Command (Step n') # Args (Step n') @ [file_name f]) \<and>
            (\<forall>c. Run c \<in> set t \<longrightarrow>
                 cmd_Args c = Command (Step n') # Args (Step n') @ [file_name f])) \<and>
         (scriptFile n = None \<longrightarrow>
            (\<exists>c. cmd n' = Some c \<and> cmd_Args c = Command (Step n') # Args (Step n')) \<and>
            (\<forall>c. Run c \<in> set t \<longrightarrow> cmd_Args c = Command (Step n') # Args (Step n'))) \<and>
         (CmdWithArgs (Step n) = [] \<longrightarrow>
            Command (Step n') = Command (Step n) \<and> Args (Step n') = Args (Step n))"
proof -
  define m where "m = resolve_command split env (n\<lparr>cancelFunc := True\<rparr>)"
  have s: "scriptFile m = scriptFile n"
    using resolve_command_keeps [of split env "n\<lparr>cancelFunc := True\<rparr>"] by (simp add: m_def)
  have a: "cmd_Args (build_cmd m) =
       Command (Step n') # Args (Step n') @
       (case scriptFile n of None \<Rightarrow> [] | Some f \<Rightarrow> [file_name f])"
    using Execute_cases [OF assms] by (simp add: build_cmd_args m_def [symmetric] s)
  have u: "CmdWithArgs (Step n) = [] \<longrightarrow>
            Command (Step n') = Command (Step n) \<and> Args (Step n') = Args (Step n)"
    using Execute_cases [OF assms] by (simp add: resolve_command_def)
  show ?thesis
    using Execute_cases [OF assms] a u
    unfolding m_def [symmetric]
    by (auto split: option.splits)
qed

lemma Execute_script_ex:
  "Execute whole_line os_ok Map.empty node_with_script =
     (Returned None,
      set_Error None
        (node_with_script\<lparr>cancelFunc := True,
           cmd := Some (build_cmd (node_with_script\<lparr>cancelFunc := True\<rparr>)\<lparr>Process := Some 4242\<rparr>)\<rparr>),
      Map.empty, [Run (build_cmd (node_with_script\<lparr>cancelFunc := True\<rparr>))])"
proof -
  have o: "Output (Step node_with_script) = []"
    by (simp add: node_with_script_def step_ex_def)
  have r: "resolve_command whole_line Map.empty (node_with_script\<lparr>cancelFunc := True\<rparr>) =
           node_with_script\<lparr>cancelFunc := True\<rparr>"
    by (simp add: resolve_command_def node_with_script_def node_ex_def step_ex_def)
  show ?thesis
    unfolding Execute_no_output [OF o] Let_def r by (simp add: os_ok_def)
qed

lemma Execute_plain_ex:
  "Execute whole_line os_ok Map.empty node_ex =
     (Returned None,
      set_Error None
        (node_ex\<lparr>cancelFunc := True,
           cmd := Some (build_cmd (node_ex\<lparr>cancelFunc := True\<rparr>)\<lparr>Process := Some 4242\<rparr>)\<rparr>),
      Map.empty, [Run (build_cmd (node_ex\<lparr>cancelFunc := True\<rparr>))])"
proof -
  have o: "Output (Step node_ex) = []"
    by (simp add: node_ex_def step_ex_def)
  have r: "resolve_command whole_line Map.empty (node_ex\<lparr>cancelFunc := True\<rparr>) =
           node_ex\<lparr>cancelFunc := True\<rparr>"
    by (simp add: resolve_command_def node_ex_def step_ex_def)
  show ?thesis
    unfolding Execute_no_output [OF o] Let_def r by (simp add: os_ok_def)
qed

theorem Execute_appends_script_path_witness:
  "scriptFile node_with_script = Some script_ex \<and>
   CmdWithArgs (Step node_with_script) = [] \<and>
   Run (build_cmd (node_with_script\<lparr>cancelFunc := True\<rparr>)) \<in>
     set (snd (snd (snd (Execute whole_line os_ok Map.empty node_with_script)))) \<and>
   cmd_Args (build_cmd (node_with_script\<lparr>cancelFunc := True\<rparr>)) =
     [''bash'', ''-e'', ''/work/dagu_script-1234''] \<and>
   scriptFile node_ex = None \<and>
   Run (build_cmd (node_ex\<lparr>cancelFunc := True\<rparr>)) \<in>
     set (snd (snd (snd (Execute whole_line os_ok Map.empty node_ex)))) \<and>
   cmd_Args (build_cmd (node_ex\<lparr>cancelFunc := True\<rparr>)) = [''echo'', ''hi'']"
proof -
  have a: "scriptFile node_with_script = Some script_ex"
    and b: "CmdWithArgs (Step node_with_script) = []"
    and c: "Command (Step node_with_script) = ''bash''" "Args (Step node_with_script) = [''-e'']"
    by (simp_all add: node_with_script_def node_ex_def step_ex_def)
  have d: "scriptFile node_ex = None" and e: "CmdWithArgs (Step node_ex) = []"
    and f: "Command (Step node_ex) = ''echo''" "Args (Step node_ex) = [''hi'']"
    by (simp_all add: node_ex_def step_ex_def)
  note t1 = Execute_appends_script_path [OF Execute_script_ex]
  note t2 = Execute_appends_script_path [OF Execute_plain_ex]
  have 1: "cmd_Args (build_cmd (node_with_script\<lparr>cancelFunc := True\<rparr>)) =
             [''bash'', ''-e'', ''/work/dagu_script-1234'']"
    using t1 a b c by (simp add: script_ex_def set_Error_def)
  have 2: "cmd_Args (build_cmd (node_ex\<lparr>cancelFunc := True\<rparr>)) = [''echo'', ''hi'']"
    using t2 d e f by (simp add: set_Error_def)
  show ?thesis
    unfolding Execute_script_ex Execute_plain_ex
    using a b d 1 2 by simp
qed

lemma Expand_no_dollar: "CHR ''$'' \<notin> set s \<Longrightarrow> Expand mapping s = s"
  by (induction s) auto

text \<open>With \<^verbatim>\<open>CmdWithArgs\<close> set, the command and its arguments are what
  \<^verbatim>\<open>utils.SplitCommand\<close> makes of the line with its environment variables expanded;
  a line without \<^verbatim>\<open>$\<close> reaches \<^verbatim>\<open>utils.SplitCommand\<close> as it is.\<close>

lemma Execute_splits_expanded_line:
  assumes "CmdWithArgs (Step n) \<noteq> []"
    and "Execute split w env n = (r, n', env', t)"
  shows "(Command (Step n'), Args (Step n')) = split (ExpandEnv env (CmdWithArgs (Step n))) \<and>
         (CHR ''$'' \<notin> set (CmdWithArgs (Step n)) \<longrightarrow>
            (Command (Step n'), Args (Step n')) = split (CmdWithArgs (Step n)))"
proof -
  have "Step n' = Step (resolve_command split env (n\<lparr>cancelFunc := True\<rparr>))"
    using Execute_cases [OF assms(2)] by simp
  then have "(Command (Step n'), Args (Step n')) = split (ExpandEnv env (CmdWithArgs (Step n)))"
    using assms(1) by (simp add: resolve_command_def split_beta)
  then show ?thesis
    by (simp add: ExpandEnv_def Expand_no_dollar)
qed

end
